theory Spec2Isabelle
  imports Complex_Main
begin

section \<open>Python values\<close>

text \<open>
  A Python \<open>str\<close> is a sequence of Unicode code points. The rupee and euro signs of
  \<open>CURRENCY_RE\<close> lie outside one byte, so a string is a list of natural numbers here;
  \<open>py\<close> turns an ASCII literal into such a list.
\<close>

type_synonym codepoint = nat
type_synonym pystr = "codepoint list"

definition py :: "string \<Rightarrow> pystr" where
  "py cs = map of_char cs"

text \<open>An exception carries its message, which is all \<open>llm_infer_selectors\<close> records.\<close>

datatype exn = Exception pystr

text \<open>
  Dynamically typed values: what \<open>json.loads\<close> returns, what a selector map may hold and
  what \<open>normalize_fields\<close> builds. A dict is the list of its items in insertion order.
\<close>

datatype pyval =
    PNone
  | PBool bool
  | PNum rat
  | PStr pystr
  | PList "pyval list"
  | PDict "(pystr \<times> pyval) list"

fun truthy :: "pyval \<Rightarrow> bool" where
  "truthy PNone = False"
| "truthy (PBool b) = b"
| "truthy (PNum x) = (x \<noteq> 0)"
| "truthy (PStr s) = (s \<noteq> [])"
| "truthy (PList xs) = (xs \<noteq> [])"
| "truthy (PDict kvs) = (kvs \<noteq> [])"

text \<open>\<open>d.get(k)\<close> on a dict of dynamic values: \<open>None\<close> when the key is missing.\<close>

definition pd_get :: "(pystr \<times> pyval) list \<Rightarrow> pystr \<Rightarrow> pyval" where
  "pd_get d k = (case map_of d k of None \<Rightarrow> PNone | Some v \<Rightarrow> v)"

text \<open>\<open>d[k] = v\<close>: an existing key keeps its place, a new key goes to the end.\<close>

fun dict_set :: "('k \<times> 'v) list \<Rightarrow> 'k \<Rightarrow> 'v \<Rightarrow> ('k \<times> 'v) list" where
  "dict_set [] k v = [(k, v)]"
| "dict_set ((k', v') # d) k v = (if k' = k then (k, v) # d else (k', v') # dict_set d k v)"

text \<open>
  \<open>RawFields\<close> is \<open>Dict[str, Optional[str]]\<close>: \<open>raw.get(k)\<close> is \<open>None\<close> both for a missing
  key and for a key bound to \<open>None\<close>.
\<close>

type_synonym rawfields = "(pystr \<times> pystr option) list"

definition dict_get :: "rawfields \<Rightarrow> pystr \<Rightarrow> pystr option" where
  "dict_get d k = (case map_of d k of None \<Rightarrow> None | Some v \<Rightarrow> v)"

text \<open>The truth value of an \<open>Optional[str]\<close>: false for \<open>None\<close> and for the empty string.\<close>

definition nonempty :: "pystr option \<Rightarrow> bool" where
  "nonempty x = (case x of None \<Rightarrow> False | Some s \<Rightarrow> s \<noteq> [])"

section \<open>The parsed document\<close>

text \<open>
  The tree BeautifulSoup builds. \<open>class\<close> is a multi-valued attribute and is presented as
  a list of class names; the other attributes the code reads (\<open>id\<close>, \<open>property\<close>,
  \<open>name\<close>, \<open>content\<close>) are single strings. A \<open>Comment\<close> stands for the strings that
  \<open>get_text\<close> leaves out.
\<close>

datatype node =
    NavigableString pystr
  | Comment pystr
  | Tag (tag_name: pystr) (tag_class: "pystr list option")
        (tag_attrs: "(pystr \<times> pystr) list") (tag_contents: "node list")

section \<open>What the interpreter and the libraries supply\<close>

text \<open>
  The Unicode tables behind \<open>\d\<close>, \<open>\s\<close>, \<open>str.strip\<close>, \<open>str.lower\<close> and \<open>float\<close>, the
  HTML parser, the CSS selector engine, the JSON parser and the generative backend are
  not code of this repository. They are parameters of the model, so every theorem
  stated for an arbitrary \<open>runtime\<close> holds whatever these collaborators do.
\<close>

record runtime =
  unicode_decimal :: "codepoint \<Rightarrow> nat option"
  unicode_isspace :: "codepoint \<Rightarrow> bool"
  str_lower :: "pystr \<Rightarrow> pystr"
  BeautifulSoup :: "pystr \<Rightarrow> node"
  select_one :: "node \<Rightarrow> pyval \<Rightarrow> exn + node option"
  genai_installed :: bool
  generate_content :: "pystr \<Rightarrow> pystr \<Rightarrow> pystr \<Rightarrow> exn + pystr option"
  json_loads :: "pystr \<Rightarrow> exn + pyval"

definition isdigit :: "runtime \<Rightarrow> codepoint \<Rightarrow> bool" where
  "isdigit rt c = (unicode_decimal rt c \<noteq> None)"

section \<open>String operations\<close>

definition str_strip :: "runtime \<Rightarrow> pystr \<Rightarrow> pystr" where
  "str_strip rt s =
     rev (dropWhile (unicode_isspace rt) (rev (dropWhile (unicode_isspace rt) s)))"

text \<open>\<open>s.find(sub)\<close>: the lowest index where \<open>sub\<close> starts, \<open>None\<close> for Python's \<open>-1\<close>.\<close>

fun str_find :: "pystr \<Rightarrow> pystr \<Rightarrow> nat option" where
  "str_find sub [] = (if sub = [] then Some 0 else None)"
| "str_find sub (c # s) =
     (if take (length sub) (c # s) = sub then Some 0 else map_option Suc (str_find sub s))"

text \<open>\<open>sub in s\<close>.\<close>

definition str_contains :: "pystr \<Rightarrow> pystr \<Rightarrow> bool" where
  "str_contains sub s = (str_find sub s \<noteq> None)"

text \<open>\<open>s.replace(c, new)\<close> for a one-character \<open>c\<close>.\<close>

definition str_replace :: "codepoint \<Rightarrow> pystr \<Rightarrow> pystr \<Rightarrow> pystr" where
  "str_replace c new s = concat (map (\<lambda>x. if x = c then new else [x]) s)"

fun str_join :: "pystr \<Rightarrow> pystr list \<Rightarrow> pystr" where
  "str_join sep [] = []"
| "str_join sep [x] = x"
| "str_join sep (x # y # ys) = x @ sep @ str_join sep (y # ys)"

text \<open>\<open>s[lo:hi]\<close> for non-negative bounds; a bound past the end is clipped.\<close>

definition str_slice :: "pystr \<Rightarrow> nat \<Rightarrow> nat \<Rightarrow> pystr" where
  "str_slice s lo hi = take (hi - lo) (drop lo s)"

section \<open>Regular expressions\<close>

text \<open>
  The fragment of \<open>re\<close> that the two patterns use. \<open>ends r s\<close> lists, in the order the
  backtracking matcher tries them, the remainders of \<open>s\<close> after each way of matching
  \<open>r\<close> at its start: quantifiers are greedy, an alternation tries its left branch first.
  The first entry is the match \<open>re\<close> reports.
\<close>

datatype regex =
    Cls "codepoint \<Rightarrow> bool"
  | Seq regex regex
  | Alt regex regex
  | Opt regex
  | Star regex
  | Plus regex
  | Group regex

fun iter :: "(pystr \<Rightarrow> pystr list) \<Rightarrow> nat \<Rightarrow> pystr \<Rightarrow> pystr list" where
  "iter f 0 s = [s]"
| "iter f (Suc n) s =
     concat (map (iter f n) (filter (\<lambda>t. length t < length s) (f s))) @ [s]"

fun ends :: "regex \<Rightarrow> pystr \<Rightarrow> pystr list" where
  "ends (Cls p) s = (case s of [] \<Rightarrow> [] | c # t \<Rightarrow> if p c then [t] else [])"
| "ends (Seq a b) s = concat (map (ends b) (ends a s))"
| "ends (Alt a b) s = ends a s @ ends b s"
| "ends (Opt a) s = ends a s @ [s]"
| "ends (Star a) s = iter (ends a) (length s) s"
| "ends (Plus a) s = concat (map (\<lambda>t. iter (ends a) (length t) t) (ends a s))"
| "ends (Group a) s = ends a s"

text \<open>\<open>r.match(s).group(0)\<close>, and \<open>r.search(s).group(0)\<close>: the leftmost start that matches.\<close>

definition re_match :: "regex \<Rightarrow> pystr \<Rightarrow> pystr option" where
  "re_match r s =
     (case ends r s of [] \<Rightarrow> None | t # _ \<Rightarrow> Some (take (length s - length t) s))"

fun re_search :: "regex \<Rightarrow> pystr \<Rightarrow> pystr option" where
  "re_search r [] = re_match r []"
| "re_search r (c # s) =
     (case re_match r (c # s) of Some m \<Rightarrow> Some m | None \<Rightarrow> re_search r s)"

abbreviation Chr :: "codepoint \<Rightarrow> regex" where
  "Chr c \<equiv> Cls (\<lambda>x. x = c)"

abbreviation DOLLAR :: codepoint where "DOLLAR \<equiv> 0x24"
abbreviation POUND :: codepoint where "POUND \<equiv> 0xA3"
abbreviation EURO :: codepoint where "EURO \<equiv> 0x20AC"
abbreviation RUPEE :: codepoint where "RUPEE \<equiv> 0x20B9"
abbreviation COMMA :: codepoint where "COMMA \<equiv> 0x2C"
abbreviation FULLSTOP :: codepoint where "FULLSTOP \<equiv> 0x2E"
abbreviation LBRACE :: codepoint where "LBRACE \<equiv> 0x7B"
abbreviation RBRACE :: codepoint where "RBRACE \<equiv> 0x7D"

text \<open>
  The bracket expression \<open>[\d{1,3},]\<close>. Inside brackets \<open>{1,3}\<close> is no quantifier: the
  class holds the digits and the five characters \<open>{\<close>, \<open>1\<close>, \<open>,\<close>, \<open>3\<close>, \<open>}\<close>.
\<close>

definition digit_group_class :: "runtime \<Rightarrow> codepoint \<Rightarrow> bool" where
  "digit_group_class rt c =
     (isdigit rt c \<or> c = LBRACE \<or> c = 0x31 \<or> c = COMMA \<or> c = 0x33 \<or> c = RBRACE)"

text \<open>\<open>NUMBER_RE = [\d{1,3},]*\d+(\.\d+)?\<close>\<close>

definition NUMBER_RE :: "runtime \<Rightarrow> regex" where
  "NUMBER_RE rt =
     Seq (Star (Cls (digit_group_class rt)))
       (Seq (Plus (Cls (isdigit rt)))
         (Opt (Group (Seq (Chr FULLSTOP) (Plus (Cls (isdigit rt)))))))"

text \<open>
  \<open>CURRENCY_RE\<close>: a group with the alternation of the dollar, euro, pound and rupee
  signs (the last written \<open>\u20B9\<close>), followed by \<open>\s?[\d{1,3},]*\d+(\.\d+)?\<close>.
\<close>

definition CURRENCY_RE :: "runtime \<Rightarrow> regex" where
  "CURRENCY_RE rt =
     Seq (Group (Alt (Chr DOLLAR) (Alt (Chr EURO) (Alt (Chr POUND) (Chr RUPEE)))))
       (Seq (Opt (Cls (unicode_isspace rt)))
         (Seq (Star (Cls (digit_group_class rt)))
           (Seq (Plus (Cls (isdigit rt)))
             (Opt (Group (Seq (Chr FULLSTOP) (Plus (Cls (isdigit rt)))))))))"

text \<open>
  \<open>m.group(1)\<close> of a \<open>CURRENCY_RE\<close> match: group 1 is the leading alternation, which
  matches exactly the first character of the match.
\<close>

definition group1 :: "pystr \<Rightarrow> pystr" where
  "group1 m = take 1 m"

section \<open>float\<close>

text \<open>
  \<open>float(s)\<close> on a plain decimal literal: digits with at most one \<open>.\<close>, and a digit on at
  least one side of it. Any Unicode decimal digit counts, as in Python. Signs, exponents,
  underscores, surrounding blanks and \<open>inf\<close>/\<open>nan\<close> are left out: the only caller passes
  a \<open>NUMBER_RE\<close> match without its commas, which holds none of them
  (\<open>float_argument_alphabet\<close> below). The result is the number the literal denotes;
  Python rounds it to the nearest binary64 value.
\<close>

definition digits_value :: "runtime \<Rightarrow> pystr \<Rightarrow> nat" where
  "digits_value rt ds = foldl (\<lambda>acc c. 10 * acc + the (unicode_decimal rt c)) 0 ds"

definition py_float :: "runtime \<Rightarrow> pystr \<Rightarrow> exn + rat" where
  "py_float rt s =
     (let ip = takeWhile (\<lambda>c. c \<noteq> FULLSTOP) s;
          fp = drop (Suc (length ip)) s
      in if list_all (isdigit rt) ip \<and> list_all (isdigit rt) fp \<and> (ip \<noteq> [] \<or> fp \<noteq> [])
         then Inr (of_nat (digits_value rt ip) + of_nat (digits_value rt fp) / 10 ^ length fp)
         else Inl (Exception (py ''could not convert string to float'')))"

section \<open>The normalizer\<close>

definition normalize_fields :: "runtime \<Rightarrow> pystr \<Rightarrow> rawfields \<Rightarrow> exn + pyval" where
  "normalize_fields rt utcnow raw =
     (let price_raw = dict_get raw (py ''price'');
          currency =
            (if nonempty price_raw
             then (case re_search (CURRENCY_RE rt) (the price_raw) of
                     None \<Rightarrow> None
                   | Some m \<Rightarrow> Some (group1 m))
             else None);
          amount =
            (if nonempty price_raw
             then (case re_search (NUMBER_RE rt) (the price_raw) of
                     None \<Rightarrow> None
                   | Some num_m \<Rightarrow>
                       (case py_float rt (str_replace COMMA [] num_m) of
                          Inl e \<Rightarrow> None
                        | Inr v \<Rightarrow> Some v))
             else None)
      in Inr (PDict
           [(py ''title'', case_option PNone PStr (dict_get raw (py ''title''))),
            (py ''price'', PDict
               [(py ''raw'', case_option PNone PStr price_raw),
                (py ''amount'', case_option PNone PNum amount),
                (py ''currency'', case_option PNone PStr currency)]),
            (py ''availability'', case_option PNone PStr (dict_get raw (py ''availability''))),
            (py ''extraction_timestamp'', PStr (utcnow @ py ''Z''))]))"

section \<open>Document queries\<close>

text \<open>\<open>tag.descendants\<close>: everything below a node, in document order.\<close>

fun descendants :: "node \<Rightarrow> node list" where
  "descendants (Tag n c a kids) = concat (map (\<lambda>k. k # descendants k) kids)"
| "descendants (NavigableString s) = []"
| "descendants (Comment s) = []"

text \<open>
  \<open>tag.get_text(sep, strip)\<close> joins the text strings below \<open>tag\<close>. With \<open>strip\<close>, each
  string is stripped on its own and dropped when nothing is left; whitespace inside a
  string stays as it is. \<open>tag.text\<close> is \<open>get_text\<close> with an empty separator and no
  stripping.
\<close>

definition all_strings :: "runtime \<Rightarrow> bool \<Rightarrow> node \<Rightarrow> pystr list" where
  "all_strings rt strip tag =
     (let ss = concat (map (\<lambda>d. case d of NavigableString s \<Rightarrow> [s] | _ \<Rightarrow> [])
                          (descendants tag))
      in if strip then filter (\<lambda>s. s \<noteq> []) (map (str_strip rt) ss) else ss)"

definition get_text :: "runtime \<Rightarrow> pystr \<Rightarrow> bool \<Rightarrow> node \<Rightarrow> pystr" where
  "get_text rt sep strip tag = str_join sep (all_strings rt strip tag)"

definition tag_text :: "runtime \<Rightarrow> node \<Rightarrow> pystr" where
  "tag_text rt tag = get_text rt [] False tag"

text \<open>\<open>soup.find_all(...)\<close> and \<open>soup.find(...)\<close>: the tags below \<open>soup\<close> that pass a test.\<close>

definition is_tag :: "node \<Rightarrow> bool" where
  "is_tag d = (case d of Tag n c a kids \<Rightarrow> True | _ \<Rightarrow> False)"

definition find_all :: "node \<Rightarrow> (node \<Rightarrow> bool) \<Rightarrow> node list" where
  "find_all soup test = filter (\<lambda>d. is_tag d \<and> test d) (descendants soup)"

definition find_first :: "node \<Rightarrow> (node \<Rightarrow> bool) \<Rightarrow> node option" where
  "find_first soup test = (case find_all soup test of [] \<Rightarrow> None | t # _ \<Rightarrow> Some t)"

definition named :: "pystr \<Rightarrow> node \<Rightarrow> bool" where
  "named nm d = (case d of Tag n c a kids \<Rightarrow> n = nm | _ \<Rightarrow> False)"

text \<open>\<open>tag.get(k)\<close> for a single-valued attribute, and \<open>tag.get("class")\<close>.\<close>

definition attr_get :: "node \<Rightarrow> pystr \<Rightarrow> pystr option" where
  "attr_get d k = (case d of Tag n c a kids \<Rightarrow> map_of a k | _ \<Rightarrow> None)"

definition class_get :: "node \<Rightarrow> pystr list option" where
  "class_get d = (case d of Tag n c a kids \<Rightarrow> c | _ \<Rightarrow> None)"

section \<open>Heuristic inference\<close>

subsection \<open>Title\<close>

text \<open>The loop over the two \<open>meta\<close> tags, and the loop over the heading names.\<close>

fun first_content :: "runtime \<Rightarrow> node option list \<Rightarrow> pystr option" where
  "first_content rt [] = None"
| "first_content rt (tag # tags) =
     (case tag of
        None \<Rightarrow> first_content rt tags
      | Some t \<Rightarrow>
          if nonempty (attr_get t (py ''content''))
          then Some (str_strip rt (the (attr_get t (py ''content''))))
          else first_content rt tags)"

fun first_heading :: "runtime \<Rightarrow> node \<Rightarrow> pystr list \<Rightarrow> pystr option" where
  "first_heading rt soup [] = None"
| "first_heading rt soup (nm # names) =
     (case find_first soup (named nm) of
        None \<Rightarrow> first_heading rt soup names
      | Some t \<Rightarrow>
          if str_strip rt (tag_text rt t) \<noteq> []
          then Some (str_strip rt (tag_text rt t))
          else first_heading rt soup names)"

definition og_title :: "node \<Rightarrow> node option" where
  "og_title soup =
     find_first soup (\<lambda>d. named (py ''meta'') d \<and> attr_get d (py ''property'') = Some (py ''og:title''))"

definition twitter_title :: "node \<Rightarrow> node option" where
  "twitter_title soup =
     find_first soup (\<lambda>d. named (py ''meta'') d \<and> attr_get d (py ''name'') = Some (py ''twitter:title''))"

definition infer_title :: "runtime \<Rightarrow> node \<Rightarrow> pystr option" where
  "infer_title rt soup =
     (case first_content rt [og_title soup, twitter_title soup] of
        Some t \<Rightarrow> Some t
      | None \<Rightarrow>
          (case find_first soup (named (py ''title'')) of
             Some t \<Rightarrow>
               if str_strip rt (tag_text rt t) \<noteq> []
               then Some (str_strip rt (tag_text rt t))
               else first_heading rt soup [py ''h1'', py ''h2'', py ''h3'']
           | None \<Rightarrow> first_heading rt soup [py ''h1'', py ''h2'', py ''h3'']))"

subsection \<open>Price\<close>

definition price_keywords :: "pystr list" where
  "price_keywords = [py ''price'', py ''amount'', py ''cost'', py ''sale'', py ''our-price'']"

definition has_price_keyword :: "runtime \<Rightarrow> pystr \<Rightarrow> bool" where
  "has_price_keyword rt s = list_ex (\<lambda>k. str_contains k (str_lower rt s)) price_keywords"

text \<open>
  The body shared by the two \<open>for tag in soup.find_all(...)\<close> loops; \<open>label\<close> reads the
  attribute the loop looks at.
\<close>

fun scan_tags :: "runtime \<Rightarrow> (node \<Rightarrow> pystr) \<Rightarrow> node list \<Rightarrow> pystr option" where
  "scan_tags rt label [] = None"
| "scan_tags rt label (tag # tags) =
     (if has_price_keyword rt (label tag)
      then (case re_search (CURRENCY_RE rt) (get_text rt (py '' '') True tag) of
              Some m \<Rightarrow> Some m
            | None \<Rightarrow> scan_tags rt label tags)
      else scan_tags rt label tags)"

definition class_label :: "node \<Rightarrow> pystr" where
  "class_label tag = str_join (py '' '') (case class_get tag of Some cs \<Rightarrow> cs | None \<Rightarrow> [])"

definition id_label :: "node \<Rightarrow> pystr" where
  "id_label tag = (case attr_get tag (py ''id'') of Some i \<Rightarrow> i | None \<Rightarrow> [])"

definition infer_price :: "runtime \<Rightarrow> node \<Rightarrow> pystr option" where
  "infer_price rt soup =
     (case scan_tags rt class_label (find_all soup (\<lambda>d. class_get d \<noteq> None)) of
        Some m \<Rightarrow> Some m
      | None \<Rightarrow>
          (case scan_tags rt id_label (find_all soup (\<lambda>d. attr_get d (py ''id'') \<noteq> None)) of
             Some m \<Rightarrow> Some m
           | None \<Rightarrow> re_search (CURRENCY_RE rt) (get_text rt (py '' '') True soup)))"

subsection \<open>Availability\<close>

definition availability_phrases :: "pystr list" where
  "availability_phrases =
     [py ''in stock'', py ''out of stock'', py ''available'', py ''pre-order'', py ''preorder'']"

text \<open>
  The loop over the phrases. \<open>phrase in text\<close> holds exactly when \<open>text.find(phrase)\<close>
  is an index; \<open>max(0, idx - 30)\<close> is the truncating subtraction of \<open>nat\<close>.
\<close>

fun scan_phrases :: "runtime \<Rightarrow> pystr \<Rightarrow> pystr list \<Rightarrow> pystr option" where
  "scan_phrases rt text [] = None"
| "scan_phrases rt text (phrase # phrases) =
     (if str_contains phrase text
      then (case str_find phrase text of
              Some idx \<Rightarrow> Some (str_strip rt (str_slice text (idx - 30) (idx + 50)))
            | None \<Rightarrow> scan_phrases rt text phrases)
      else scan_phrases rt text phrases)"

definition infer_availability :: "runtime \<Rightarrow> node \<Rightarrow> pystr option" where
  "infer_availability rt soup =
     scan_phrases rt (str_lower rt (get_text rt (py '' '') True soup)) availability_phrases"

section \<open>Applying selectors\<close>

text \<open>
  One turn of the loop in \<open>apply_selectors\<close>: the value stored for the field, and the
  selectors handed to \<open>select_one\<close> on the way (none or one). Whatever the engine raises
  is caught by \<open>except Exception\<close>.
\<close>

definition select_field :: "runtime \<Rightarrow> node \<Rightarrow> pyval \<Rightarrow> pystr option \<times> pyval list" where
  "select_field rt soup selector =
     (if \<not> truthy selector then (None, [])
      else (case select_one rt soup selector of
              Inl e \<Rightarrow> (None, [selector])
            | Inr None \<Rightarrow> (None, [selector])
            | Inr (Some tag) \<Rightarrow> (Some (get_text rt (py '' '') True tag), [selector])))"

fun apply_selectors_loop ::
  "runtime \<Rightarrow> node \<Rightarrow> (pystr \<times> pyval) list \<Rightarrow> rawfields \<times> pyval list \<Rightarrow> rawfields \<times> pyval list"
where
  "apply_selectors_loop rt soup [] acc = acc"
| "apply_selectors_loop rt soup ((field, selector) # items) (results, evaluated) =
     apply_selectors_loop rt soup items
       (dict_set results field (fst (select_field rt soup selector)),
        evaluated @ snd (select_field rt soup selector))"

text \<open>
  The result is the \<open>results\<close> dict together with the list of selectors that were
  evaluated, in order.
\<close>

definition apply_selectors ::
  "runtime \<Rightarrow> node \<Rightarrow> (pystr \<times> pyval) list \<Rightarrow> exn + (rawfields \<times> pyval list)"
where
  "apply_selectors rt soup mapping = Inr (apply_selectors_loop rt soup mapping ([], []))"

section \<open>The extractor\<close>

text \<open>
  \<open>fill\<close> is one of the three \<open>if not selected.get(field): selected[field] = infer(soup)\<close>
  statements; it also returns the name of the heuristic when it was called.
\<close>

definition fill ::
  "rawfields \<Rightarrow> pystr \<Rightarrow> pystr option \<Rightarrow> rawfields \<times> pystr list"
where
  "fill selected field inferred =
     (if \<not> nonempty (dict_get selected field)
      then (dict_set selected field inferred, [field])
      else (selected, []))"

text \<open>
  \<open>utcnow\<close> is the clock reading \<open>datetime.datetime.utcnow().isoformat()\<close> of the call.
  The result is the record and the names of the heuristics that ran, in order. The
  default \<open>mapping={}\<close> is one dict shared by all calls; \<open>apply_selectors\<close> only reads
  it, so a call without the argument is a call with \<open>[]\<close>.
\<close>

definition extract_from_html ::
  "runtime \<Rightarrow> pystr \<Rightarrow> pystr \<Rightarrow> (pystr \<times> pyval) list \<Rightarrow> exn + (pyval \<times> pystr list)"
where
  "extract_from_html rt utcnow html mapping =
     (let soup = BeautifulSoup rt html in
      case apply_selectors rt soup mapping of
        Inl e \<Rightarrow> Inl e
      | Inr (selected0, evaluated) \<Rightarrow>
          (let (selected1, ran1) = fill selected0 (py ''title'') (infer_title rt soup);
               (selected2, ran2) = fill selected1 (py ''price'') (infer_price rt soup);
               (selected3, ran3) = fill selected2 (py ''availability'') (infer_availability rt soup)
           in case normalize_fields rt utcnow selected3 of
                Inl e \<Rightarrow> Inl e
              | Inr normalized \<Rightarrow> Inr (normalized, ran1 @ ran2 @ ran3)))"

section \<open>Selector suggestions\<close>

definition FENCE :: pystr where
  "FENCE = [0x60, 0x60, 0x60]"

text \<open>\<open>s.split(sep, 1)[0]\<close> and \<open>s.split(sep, 1)[1]\<close>; the latter is an \<open>IndexError\<close>
  when \<open>sep\<close> does not occur.\<close>

definition split_head :: "pystr \<Rightarrow> pystr \<Rightarrow> pystr" where
  "split_head sep s = (case str_find sep s of None \<Rightarrow> s | Some i \<Rightarrow> take i s)"

definition split_tail :: "pystr \<Rightarrow> pystr \<Rightarrow> exn + pystr" where
  "split_tail sep s =
     (case str_find sep s of
        None \<Rightarrow> Inl (Exception (py ''list index out of range''))
      | Some i \<Rightarrow> Inr (drop (i + length sep) s))"

definition strip_fence :: "runtime \<Rightarrow> pystr \<Rightarrow> exn + pystr" where
  "strip_fence rt text =
     (if str_contains (FENCE @ py ''json'') text
      then (case split_tail (FENCE @ py ''json'') text of
              Inl e \<Rightarrow> Inl e
            | Inr rest \<Rightarrow> Inr (str_strip rt (split_head FENCE rest)))
      else if str_contains FENCE text
      then (case split_tail FENCE text of
              Inl e \<Rightarrow> Inl e
            | Inr rest \<Rightarrow> Inr (str_strip rt (split_head FENCE rest)))
      else Inr text)"

definition expected_keys :: "pystr list" where
  "expected_keys = [py ''title'', py ''price'', py ''availability'']"

text \<open>\<open>isinstance(parsed, dict) and any(k in parsed for k in [...])\<close>\<close>

definition accepted :: "pyval \<Rightarrow> bool" where
  "accepted parsed =
     (case parsed of
        PDict kvs \<Rightarrow> list_ex (\<lambda>k. k \<in> set (map fst kvs)) expected_keys
      | _ \<Rightarrow> False)"

definition build_prompt :: "pystr \<Rightarrow> pystr" where
  "build_prompt html =
     py ''You are an expert HTML analyst. Given the following HTML, identify the correct CSS selectors ''
     @ py ''for three elements: product title, product price, and availability. ''
     @ py ''Respond ONLY as a JSON object with keys: title, price, availability.'' @ [0x0A, 0x0A]
     @ py ''Example output: {'' @ [0x22] @ py ''title'' @ [0x22] @ py '': '' @ [0x22]
     @ py ''h1.product-title'' @ [0x22] @ py '', '' @ [0x22] @ py ''price'' @ [0x22] @ py '': ''
     @ [0x22] @ py ''span.price'' @ [0x22] @ py '', '' @ [0x22] @ py ''availability'' @ [0x22]
     @ py '': '' @ [0x22] @ py ''#stock'' @ [0x22] @ py ''}'' @ [0x0A, 0x0A]
     @ py ''HTML:'' @ [0x0A] @ take 6000 html"

definition models_to_try :: "pystr list" where
  "models_to_try =
     [py ''gemini-2.5-flash'', py ''gemini-2.0-flash'', py ''gemini-1.5-flash'', py ''gemini-1.5-pro'']"

text \<open>
  The body of the \<open>try\<close> block for one model: \<open>Inr\<close> is the \<open>return parsed\<close>, \<open>Inl\<close> an
  exception on its way to the handler. A response without text makes \<open>.strip()\<close> raise.
\<close>

definition attempt :: "runtime \<Rightarrow> pystr \<Rightarrow> pystr \<Rightarrow> pystr \<Rightarrow> exn + (pystr \<times> pyval) list" where
  "attempt rt api_key prompt model_name =
     (case generate_content rt api_key model_name prompt of
        Inl e \<Rightarrow> Inl e
      | Inr None \<Rightarrow> Inl (Exception (py ''NoneType object has no attribute strip''))
      | Inr (Some response_text) \<Rightarrow>
          (let text = str_strip rt response_text in
           if text = [] then Inl (Exception (py ''Empty response from model''))
           else (case strip_fence rt text of
                   Inl e \<Rightarrow> Inl e
                 | Inr body \<Rightarrow>
                     (case json_loads rt body of
                        Inl e \<Rightarrow> Inl e
                      | Inr parsed \<Rightarrow>
                          (case parsed of
                             PDict kvs \<Rightarrow>
                               if accepted parsed then Inr kvs
                               else Inl (Exception (py ''Invalid JSON structure''))
                           | _ \<Rightarrow> Inl (Exception (py ''Invalid JSON structure'')))))))"

text \<open>
  What a call leaves behind: the returned mapping, the models the backend was called
  with, and the \<open>errors\<close> dict (model name to message).
\<close>

record outcome =
  suggestion :: "(pystr \<times> pyval) list"
  attempted :: "pystr list"
  errors :: "(pystr \<times> pystr) list"

fun try_models :: "runtime \<Rightarrow> pystr \<Rightarrow> pystr \<Rightarrow> pystr list \<Rightarrow> outcome \<Rightarrow> outcome" where
  "try_models rt api_key prompt [] acc = acc"
| "try_models rt api_key prompt (model_name # models) acc =
     (case attempt rt api_key prompt model_name of
        Inr parsed \<Rightarrow>
          acc\<lparr>suggestion := parsed, attempted := attempted acc @ [model_name]\<rparr>
      | Inl (Exception msg) \<Rightarrow>
          try_models rt api_key prompt models
            (acc\<lparr>attempted := attempted acc @ [model_name],
                 errors := dict_set (errors acc) model_name msg\<rparr>))"

definition llm_infer_selectors :: "runtime \<Rightarrow> pystr \<Rightarrow> pystr option \<Rightarrow> exn + outcome" where
  "llm_infer_selectors rt html api_key =
     (if \<not> nonempty api_key then Inr \<lparr>suggestion = [], attempted = [], errors = []\<rparr>
      else if \<not> genai_installed rt then Inr \<lparr>suggestion = [], attempted = [], errors = []\<rparr>
      else Inr (try_models rt (the api_key) (build_prompt html) models_to_try
                  \<lparr>suggestion = [], attempted = [], errors = []\<rparr>))"

section \<open>Merging suggestions into the selector map\<close>

text \<open>
  The handler in \<open>app.py\<close> copies \<open>mapping_input\<close> and writes into the copy. To tell the
  two objects apart, dicts live in a store and are named by their index in it.
\<close>

type_synonym store = "(pystr \<times> pyval) list list"

definition dict_copy :: "store \<Rightarrow> nat \<Rightarrow> store \<times> nat" where
  "dict_copy h a = (h @ [h ! a], length h)"

text \<open>The loop \<open>for key in ["title", "price", "availability"]\<close>.\<close>

fun merge_keys :: "store \<Rightarrow> nat \<Rightarrow> (pystr \<times> pyval) list \<Rightarrow> pystr list \<Rightarrow> store" where
  "merge_keys h mapping inferred [] = h"
| "merge_keys h mapping inferred (key # keys) =
     merge_keys
       (if truthy (pd_get inferred key) \<and> \<not> truthy (pd_get (h ! mapping) key)
        then h[mapping := dict_set (h ! mapping) key (pd_get inferred key)]
        else h)
       mapping inferred keys"

text \<open>
  The block from \<open>mapping = mapping_input.copy()\<close> to the end of the suggestion merge:
  the new store and the reference held by \<open>mapping\<close>.
\<close>

definition effective_mapping ::
  "runtime \<Rightarrow> store \<Rightarrow> nat \<Rightarrow> bool \<Rightarrow> pystr option \<Rightarrow> pystr \<Rightarrow> exn + (store \<times> nat)"
where
  "effective_mapping rt h mapping_input use_llm_inference GEMINI_API_KEY html =
     (let (h1, mapping) = dict_copy h mapping_input in
      if use_llm_inference \<and> nonempty GEMINI_API_KEY
      then (case llm_infer_selectors rt html GEMINI_API_KEY of
              Inl e \<Rightarrow> Inl e
            | Inr out \<Rightarrow>
                if suggestion out \<noteq> []
                then Inr (merge_keys h1 mapping (suggestion out) expected_keys, mapping)
                else Inr (h1, mapping))
      else Inr (h1, mapping))"

section \<open>A small runtime for examples\<close>

text \<open>
  A runtime that knows the ASCII digits, the ASCII blanks and ASCII lower-casing, on
  which it agrees with Python. Its selector engine understands a bare tag name and
  treats every other selector as malformed; its parser and backend are placeholders
  that the examples replace.
\<close>

definition ascii_select_one :: "node \<Rightarrow> pyval \<Rightarrow> exn + node option" where
  "ascii_select_one soup selector =
     (case selector of
        PStr s \<Rightarrow>
          if s \<noteq> [] \<and> list_all (\<lambda>c. 0x61 \<le> c \<and> c \<le> 0x7A \<or> 0x30 \<le> c \<and> c \<le> 0x39) s
          then Inr (find_first soup (named s))
          else Inl (Exception (py ''Malformed selector''))
      | _ \<Rightarrow> Inl (Exception (py ''expected a string'')))"

definition ascii_runtime :: runtime where
  "ascii_runtime =
     \<lparr> unicode_decimal = (\<lambda>c. if 0x30 \<le> c \<and> c \<le> 0x39 then Some (c - 0x30) else None),
       unicode_isspace = (\<lambda>c. c \<in> {0x09, 0x0A, 0x0B, 0x0C, 0x0D, 0x1C, 0x1D, 0x1E, 0x1F, 0x20}),
       str_lower = map (\<lambda>c. if 0x41 \<le> c \<and> c \<le> 0x5A then c + 0x20 else c),
       BeautifulSoup = (\<lambda>html. Tag (py ''[document]'') None [] [NavigableString html]),
       select_one = ascii_select_one,
       genai_installed = True,
       generate_content = (\<lambda>api_key model_name prompt. Inl (Exception (py ''unreachable''))),
       json_loads = (\<lambda>s. Inl (Exception (py ''Expecting value''))) \<rparr>"

section \<open>Notions used in the statements\<close>

text \<open>
  The characters a pattern can consume, and \<open>consumes P s t\<close>: \<open>t\<close> is what is left of
  \<open>s\<close> after a prefix made of \<open>P\<close>-characters.
\<close>

fun alphabet :: "regex \<Rightarrow> codepoint \<Rightarrow> bool" where
  "alphabet (Cls p) c = p c"
| "alphabet (Seq a b) c = (alphabet a c \<or> alphabet b c)"
| "alphabet (Alt a b) c = (alphabet a c \<or> alphabet b c)"
| "alphabet (Opt a) c = alphabet a c"
| "alphabet (Star a) c = alphabet a c"
| "alphabet (Plus a) c = alphabet a c"
| "alphabet (Group a) c = alphabet a c"

definition consumes :: "(codepoint \<Rightarrow> bool) \<Rightarrow> pystr \<Rightarrow> pystr \<Rightarrow> bool" where
  "consumes P s t = (\<exists>m. s = m @ t \<and> list_all P m)"

text \<open>The four symbols of the leading alternation of \<open>CURRENCY_RE\<close>.\<close>

definition is_currency_symbol :: "codepoint \<Rightarrow> bool" where
  "is_currency_symbol c = (c = DOLLAR \<or> c = EURO \<or> c = POUND \<or> c = RUPEE)"

text \<open>\<open>r[k]\<close> on a result record.\<close>

definition item :: "pyval \<Rightarrow> pystr \<Rightarrow> pyval" where
  "item r k = (case r of PDict kvs \<Rightarrow> pd_get kvs k | _ \<Rightarrow> PNone)"


text \<open>
  \<open>selected.get(k)\<close> right after \<open>apply_selectors\<close>, the value a field ends up with
  once the heuristic has had its turn, and the heuristics whose guard lets them run.
\<close>

definition selected :: "runtime \<Rightarrow> node \<Rightarrow> (pystr \<times> pyval) list \<Rightarrow> pystr \<Rightarrow> pystr option" where
  "selected rt soup mapping k = dict_get (fst (apply_selectors_loop rt soup mapping ([], []))) k"

definition filled ::
  "runtime \<Rightarrow> node \<Rightarrow> (pystr \<times> pyval) list \<Rightarrow> pystr \<Rightarrow> pystr option \<Rightarrow> pystr option" where
  "filled rt soup mapping k inferred =
     (if nonempty (selected rt soup mapping k) then selected rt soup mapping k else inferred)"

definition heuristics_run :: "runtime \<Rightarrow> node \<Rightarrow> (pystr \<times> pyval) list \<Rightarrow> pystr list" where
  "heuristics_run rt soup mapping =
     filter (\<lambda>k. \<not> nonempty (selected rt soup mapping k)) expected_keys"


text \<open>The amount and the currency that \<open>normalize_fields\<close> derives from a raw price text.\<close>

definition amount_of :: "runtime \<Rightarrow> pystr option \<Rightarrow> pyval" where
  "amount_of rt price_raw =
     (case price_raw of
        None \<Rightarrow> PNone
      | Some p \<Rightarrow>
          (case re_search (NUMBER_RE rt) p of
             None \<Rightarrow> PNone
           | Some n \<Rightarrow>
               (case py_float rt (str_replace COMMA [] n) of
                  Inl e \<Rightarrow> PNone
                | Inr v \<Rightarrow> PNum v)))"

definition currency_of :: "runtime \<Rightarrow> pystr option \<Rightarrow> pyval" where
  "currency_of rt price_raw =
     (case price_raw of
        None \<Rightarrow> PNone
      | Some p \<Rightarrow>
          (case re_search (CURRENCY_RE rt) p of
             None \<Rightarrow> PNone
           | Some m \<Rightarrow> PStr (take 1 m)))"

text \<open>
  A page for the examples, and the example runtime with a parser that returns a given
  tree.
\<close>

definition sample_page :: node where
  "sample_page =
     Tag (py ''[document]'') None []
       [Tag (py ''html'') None []
          [Tag (py ''body'') None []
             [Tag (py ''h1'') None [] [NavigableString (py ''Widget'')],
              Tag (py ''span'') (Some [py ''price'']) [] [NavigableString (RUPEE # py ''1049'')],
              Tag (py ''p'') None []
                [NavigableString (py ''Pre-order today and save. Ships free worldwide. Now in stock.'')]]]]"

definition page_runtime :: "node \<Rightarrow> runtime" where
  "page_runtime page = ascii_runtime\<lparr>BeautifulSoup := \<lambda>html. page\<rparr>"

text \<open>
  The reading of the specification for the text of a matched element: runs of whitespace
  collapsed to single spaces and the ends trimmed.
\<close>

fun split_ws :: "runtime \<Rightarrow> pystr \<Rightarrow> pystr list" where
  "split_ws rt [] = [[]]"
| "split_ws rt (c # s) =
     (if unicode_isspace rt c then [] # split_ws rt s
      else (case split_ws rt s of [] \<Rightarrow> [[c]] | w # ws \<Rightarrow> (c # w) # ws))"

definition collapse_whitespace :: "runtime \<Rightarrow> pystr \<Rightarrow> pystr" where
  "collapse_whitespace rt s = str_join (py '' '') (filter (\<lambda>w. w \<noteq> []) (split_ws rt s))"

text \<open>
  Two more pages: a heading with two blanks inside its text, and an empty first heading
  followed by a second-level heading.
\<close>

definition spaced_page :: node where
  "spaced_page =
     Tag (py ''[document]'') None []
       [Tag (py ''html'') None []
          [Tag (py ''body'') None []
             [Tag (py ''h1'') None [] [NavigableString (py ''Acme  Widget'')]]]]"

definition empty_heading_page :: node where
  "empty_heading_page =
     Tag (py ''[document]'') None []
       [Tag (py ''html'') None []
          [Tag (py ''body'') None []
             [Tag (py ''h1'') None [] [],
              Tag (py ''h2'') None [] [NavigableString (py ''Widget'')]]]]"



fun first_result :: "'a option list \<Rightarrow> 'a option" where
  "first_result [] = None"
| "first_result (x # xs) = (case x of Some v \<Rightarrow> Some v | None \<Rightarrow> first_result xs)"


text \<open>
  The mapping \<open>llm_infer_selectors\<close> returns, the message of the exception a model
  attempt ends with, and the \<open>errors\<close> dict after a run of failed attempts.
\<close>

definition suggested :: "runtime \<Rightarrow> pystr \<Rightarrow> pystr option \<Rightarrow> (pystr \<times> pyval) list" where
  "suggested rt html api_key =
     (case llm_infer_selectors rt html api_key of Inl e \<Rightarrow> [] | Inr out \<Rightarrow> suggestion out)"

definition failure_message :: "runtime \<Rightarrow> pystr \<Rightarrow> pystr \<Rightarrow> pystr \<Rightarrow> pystr" where
  "failure_message rt api_key prompt model_name =
     (case attempt rt api_key prompt model_name of Inl (Exception msg) \<Rightarrow> msg | Inr kvs \<Rightarrow> [])"

definition record_failures ::
  "runtime \<Rightarrow> pystr \<Rightarrow> pystr \<Rightarrow> pystr list \<Rightarrow> (pystr \<times> pystr) list \<Rightarrow> (pystr \<times> pystr) list" where
  "record_failures rt api_key prompt models errs =
     foldl (\<lambda>e m. dict_set e m (failure_message rt api_key prompt m)) errs models"

text \<open>
  A backend for the examples: the first model is unavailable, every other model answers
  with a fenced JSON object that suggests selectors for \<open>title\<close> and \<open>price\<close>.
\<close>

definition sample_json :: pystr where
  "sample_json =
     py ''{'' @ [0x22] @ py ''title'' @ [0x22] @ py '': '' @ [0x22] @ py ''h2'' @ [0x22] @ py '', ''
     @ [0x22] @ py ''price'' @ [0x22] @ py '': '' @ [0x22] @ py ''span'' @ [0x22] @ py ''}''"

definition backend_runtime :: runtime where
  "backend_runtime =
     ascii_runtime
       \<lparr>generate_content := (\<lambda>api_key model_name prompt.
          if model_name = py ''gemini-2.5-flash'' then Inl (Exception (py ''503 UNAVAILABLE''))
          else Inr (Some (FENCE @ py ''json'' @ [0x0A] @ sample_json @ [0x0A] @ FENCE))),
        json_loads := (\<lambda>s.
          if s = sample_json
          then Inr (PDict [(py ''title'', PStr (py ''h2'')), (py ''price'', PStr (py ''span''))])
          else Inl (Exception (py ''Expecting value'')))\<rparr>"

text \<open>
  The characters a currency pattern can hold as the specification describes it: a
  currency symbol, whitespace, digits, the thousands separator and the decimal point.
\<close>

definition spec_currency_char :: "runtime \<Rightarrow> codepoint \<Rightarrow> bool" where
  "spec_currency_char rt c =
     (is_currency_symbol c \<or> unicode_isspace rt c \<or> isdigit rt c \<or> c = COMMA \<or> c = FULLSTOP)"

text \<open>
  What one tag contributes to a scan of the price heuristic: the first currency match in
  its text when its label holds a price keyword.
\<close>

definition keyword_match :: "runtime \<Rightarrow> (node \<Rightarrow> pystr) \<Rightarrow> node \<Rightarrow> pystr option" where
  "keyword_match rt label tag =
     (if has_price_keyword rt (label tag)
      then re_search (CURRENCY_RE rt) (get_text rt (py '' '') True tag)
      else None)"

text \<open>A page whose price element holds an unrendered template placeholder.\<close>

definition brace_page :: node where
  "brace_page =
     Tag (py ''[document]'') None []
       [Tag (py ''html'') None []
          [Tag (py ''body'') None []
             [Tag (py ''span'') (Some [py ''price'']) [] [NavigableString (py ''${10}'')]]]]"

section \<open>Dictionaries\<close>

lemma map_of_dict_set: "map_of (dict_set d k v) = (map_of d)(k \<mapsto> v)"
  by (induction d) (auto simp: fun_eq_iff)

lemma dict_get_dict_set:
  "dict_get (dict_set d k v) k' = (if k' = k then v else dict_get d k')"
  by (simp add: dict_get_def map_of_dict_set)

lemma pd_get_dict_set:
  "pd_get (dict_set d k v) k' = (if k' = k then v else pd_get d k')"
  by (simp add: pd_get_def map_of_dict_set)

lemma loop_get:
  "dict_get (fst (apply_selectors_loop rt soup items (results, evaluated))) k =
     (case map_of (rev items) k of
        None \<Rightarrow> dict_get results k
      | Some selector \<Rightarrow> fst (select_field rt soup selector))"
proof (induction items arbitrary: results evaluated)
  case Nil
  show ?case by simp
next
  case (Cons item items)
  obtain f s where item: "item = (f, s)" by (cases item)
  show ?case
    by (simp add: item Cons.IH dict_get_dict_set map_add_def split: option.splits)
qed

lemma loop_evaluated:
  "snd (apply_selectors_loop rt soup items (results, evaluated)) =
     evaluated @ filter truthy (map snd items)"
proof (induction items arbitrary: results evaluated)
  case Nil
  show ?case by simp
next
  case (Cons item items)
  obtain f s where item: "item = (f, s)" by (cases item)
  show ?case
    by (simp add: item Cons.IH select_field_def split: sum.splits option.splits)
qed

lemma map_of_rev_distinct:
  "distinct (map fst xs) \<Longrightarrow> map_of (rev xs) = map_of xs"
proof (induction xs)
  case Nil
  show ?case by simp
next
  case (Cons x xs)
  obtain k v where x: "x = (k, v)" by (cases x)
  from Cons.prems have k: "k \<notin> fst ` set xs" and d: "distinct (map fst xs)"
    by (auto simp: x)
  have "map_of xs k = None" using k by (simp add: map_of_eq_None_iff)
  then show ?case
    using Cons.IH [OF d] by (auto simp: x fun_eq_iff map_add_def split: option.splits)
qed

section \<open>What a match looks like\<close>

lemma consumes_refl: "consumes P s s"
  by (simp add: consumes_def)

lemma consumes_trans: "consumes P s t \<Longrightarrow> consumes P t u \<Longrightarrow> consumes P s u"
  unfolding consumes_def by (metis append.assoc list_all_append)

lemma consumes_mono: "(\<And>c. P c \<Longrightarrow> Q c) \<Longrightarrow> consumes P s t \<Longrightarrow> consumes Q s t"
  unfolding consumes_def list_all_iff by blast

lemma iter_consumes:
  assumes f: "\<And>s t. t \<in> set (f s) \<Longrightarrow> consumes P s t"
  shows "t \<in> set (iter f n s) \<Longrightarrow> consumes P s t"
proof (induction n arbitrary: s)
  case 0
  then show ?case by (simp add: consumes_refl)
next
  case (Suc n)
  from Suc.prems consider "t = s" | u where "u \<in> set (f s)" "t \<in> set (iter f n u)"
    by auto
  then show ?case
  proof cases
    case 1
    then show ?thesis by (simp add: consumes_refl)
  next
    case 2
    then show ?thesis using f Suc.IH consumes_trans by blast
  qed
qed

lemma ends_consumes: "t \<in> set (ends r s) \<Longrightarrow> consumes (alphabet r) s t"
proof (induction r arbitrary: s t)
  case (Cls p)
  then show ?case
    by (cases s) (auto simp: consumes_def split: if_splits intro: exI [of _ "[hd s]"])
next
  case (Seq a b)
  from Seq.prems obtain u where u: "u \<in> set (ends a s)" "t \<in> set (ends b u)" by auto
  have "consumes (alphabet (Seq a b)) s u"
    using Seq.IH(1) [OF u(1)] by (rule consumes_mono [rotated]) simp
  moreover have "consumes (alphabet (Seq a b)) u t"
    using Seq.IH(2) [OF u(2)] by (rule consumes_mono [rotated]) simp
  ultimately show ?case by (rule consumes_trans)
next
  case (Alt a b)
  from Alt.prems have "t \<in> set (ends a s) \<or> t \<in> set (ends b s)" by simp
  then show ?case
  proof
    assume "t \<in> set (ends a s)"
    from Alt.IH(1) [OF this] show ?thesis by (rule consumes_mono [rotated]) simp
  next
    assume "t \<in> set (ends b s)"
    from Alt.IH(2) [OF this] show ?thesis by (rule consumes_mono [rotated]) simp
  qed
next
  case (Opt a)
  from Opt.prems have "t \<in> set (ends a s) \<or> t = s" by auto
  then show ?case
  proof
    assume "t \<in> set (ends a s)"
    from Opt.IH [OF this] show ?thesis by simp
  next
    assume "t = s"
    then show ?thesis by (simp add: consumes_refl)
  qed
next
  case (Star a)
  from Star.prems have "t \<in> set (iter (ends a) (length s) s)" by simp
  then show ?case using iter_consumes [of "ends a" "alphabet a"] Star.IH by simp
next
  case (Plus a)
  from Plus.prems obtain u where u: "u \<in> set (ends a s)" "t \<in> set (iter (ends a) (length u) u)"
    by auto
  have "consumes (alphabet a) u t"
    using iter_consumes [of "ends a" "alphabet a"] Plus.IH u(2) by simp
  with Plus.IH [OF u(1)] show ?case using consumes_trans by auto
next
  case (Group a)
  then show ?case by simp
qed

lemma re_match_prefix:
  assumes "re_match r s = Some m"
  shows "\<exists>t. s = m @ t \<and> list_all (alphabet r) m"
proof -
  from assms obtain t ts where e: "ends r s = t # ts" and m: "m = take (length s - length t) s"
    by (auto simp: re_match_def split: list.splits)
  from e have "consumes (alphabet r) s t" using ends_consumes [of t r s] by simp
  then obtain m' where "s = m' @ t" "list_all (alphabet r) m'" by (auto simp: consumes_def)
  with m show ?thesis by auto
qed

lemma re_search_substring:
  "re_search r s = Some m \<Longrightarrow>
     \<exists>a b. s = a @ m @ b \<and> list_all (alphabet r) m \<and> re_match r (m @ b) = Some m \<and>
       (\<forall>k < length a. re_match r (drop k s) = None)"
proof (induction s)
  case Nil
  then have "re_match r [] = Some m" by simp
  from re_match_prefix [OF this] this show ?case by auto
next
  case (Cons c s)
  show ?case
  proof (cases "re_match r (c # s)")
    case (Some m')
    with Cons.prems have mm: "m' = m" by simp
    from re_match_prefix [OF Some] obtain t where "c # s = m @ t" "list_all (alphabet r) m"
      by (auto simp: mm)
    then show ?thesis using Some mm by (intro exI [of _ "[]"] exI [of _ t]) simp
  next
    case None
    with Cons.prems have "re_search r s = Some m" by simp
    from Cons.IH [OF this] obtain a b where ab: "s = a @ m @ b" "list_all (alphabet r) m"
      "re_match r (m @ b) = Some m" "\<forall>k < length a. re_match r (drop k s) = None"
      by blast
    have "\<forall>k < length (c # a). re_match r (drop k (c # s)) = None"
    proof (intro allI impI)
      fix k assume "k < length (c # a)"
      then show "re_match r (drop k (c # s)) = None"
        using None ab(4) by (cases k) auto
    qed
    with ab show ?thesis by (intro exI [of _ "c # a"] exI [of _ b]) simp
  qed
qed




section \<open>The normalizer, unfolded\<close>

lemmas string_ops = py_def str_strip_def str_contains_def str_replace_def str_slice_def
lemmas regex_ops = CURRENCY_RE_def NUMBER_RE_def re_match_def isdigit_def digit_group_class_def
  group1_def
lemmas ascii_ops = ascii_runtime_def ascii_select_one_def

lemma re_match_currency_Nil: "re_match (CURRENCY_RE rt) [] = None"
  by (simp add: CURRENCY_RE_def re_match_def)

lemma re_match_number_Nil: "re_match (NUMBER_RE rt) [] = None"
  by (simp add: NUMBER_RE_def re_match_def)


lemma price_parts:
  "item (PDict [(py ''raw'', r), (py ''amount'', a), (py ''currency'', c)]) (py ''raw'') = r"
  "item (PDict [(py ''raw'', r), (py ''amount'', a), (py ''currency'', c)]) (py ''amount'') = a"
  "item (PDict [(py ''raw'', r), (py ''amount'', a), (py ''currency'', c)]) (py ''currency'') = c"
  by (simp_all add: item_def pd_get_def py_def)

lemma normalize_fields_shape:
  "normalize_fields rt utcnow raw =
     Inr (PDict
       [(py ''title'', case_option PNone PStr (dict_get raw (py ''title''))),
        (py ''price'', PDict
           [(py ''raw'', case_option PNone PStr (dict_get raw (py ''price''))),
            (py ''amount'',
               (case dict_get raw (py ''price'') of
                  None \<Rightarrow> PNone
                | Some p \<Rightarrow>
                    (case re_search (NUMBER_RE rt) p of
                       None \<Rightarrow> PNone
                     | Some n \<Rightarrow>
                         (case py_float rt (str_replace COMMA [] n) of
                            Inl e \<Rightarrow> PNone
                          | Inr v \<Rightarrow> PNum v)))),
            (py ''currency'',
               (case dict_get raw (py ''price'') of
                  None \<Rightarrow> PNone
                | Some p \<Rightarrow>
                    (case re_search (CURRENCY_RE rt) p of
                       None \<Rightarrow> PNone
                     | Some m \<Rightarrow> PStr (take 1 m))))]),
        (py ''availability'', case_option PNone PStr (dict_get raw (py ''availability''))),
        (py ''extraction_timestamp'', PStr (utcnow @ py ''Z''))])"
proof (cases "dict_get raw (py ''price'')")
  case None
  then show ?thesis by (simp add: normalize_fields_def nonempty_def)
next
  case (Some p)
  show ?thesis
  proof (cases "p = []")
    case True
    with Some show ?thesis
      by (simp add: normalize_fields_def nonempty_def re_match_currency_Nil re_match_number_Nil)
  next
    case False
    with Some show ?thesis
      by (simp add: normalize_fields_def nonempty_def group1_def split: option.splits sum.splits)
  qed
qed


lemma str_replace_empty: "str_replace c [] s = filter (\<lambda>x. x \<noteq> c) s"
  by (induction s) (auto simp: str_replace_def)

lemma float_argument_alphabet:
  assumes "re_search (NUMBER_RE rt) p = Some n"
  shows "list_all (\<lambda>c. isdigit rt c \<or> c = LBRACE \<or> c = RBRACE \<or> c = 0x31 \<or> c = 0x33 \<or>
           c = FULLSTOP) (str_replace COMMA [] n)"
proof -
  from re_search_substring [OF assms] have "list_all (alphabet (NUMBER_RE rt)) n" by blast
  then show ?thesis
    unfolding str_replace_empty list_all_iff
    by (auto simp: NUMBER_RE_def digit_group_class_def)
qed

section \<open>The extractor, unfolded\<close>

lemma field_names_distinct:
  "py ''title'' \<noteq> py ''price''" "py ''title'' \<noteq> py ''availability''"
  "py ''price'' \<noteq> py ''availability''" "py ''price'' \<noteq> py ''title''"
  "py ''availability'' \<noteq> py ''title''" "py ''availability'' \<noteq> py ''price''"
  by (simp_all add: py_def)

lemma extract_from_html_raw:
  "extract_from_html rt utcnow html mapping =
     (case normalize_fields rt utcnow
         [(py ''title'', filled rt (BeautifulSoup rt html) mapping (py ''title'')
                          (infer_title rt (BeautifulSoup rt html))),
          (py ''price'', filled rt (BeautifulSoup rt html) mapping (py ''price'')
                          (infer_price rt (BeautifulSoup rt html))),
          (py ''availability'', filled rt (BeautifulSoup rt html) mapping (py ''availability'')
                          (infer_availability rt (BeautifulSoup rt html)))] of
        Inl e \<Rightarrow> Inl e
      | Inr normalized \<Rightarrow> Inr (normalized, heuristics_run rt (BeautifulSoup rt html) mapping))"
proof -
  define soup where "soup = BeautifulSoup rt html"
  define s0 where "s0 = fst (apply_selectors_loop rt soup mapping ([], []))"
  define s1 where "s1 = fst (fill s0 (py ''title'') (infer_title rt soup))"
  define s2 where "s2 = fst (fill s1 (py ''price'') (infer_price rt soup))"
  define s3 where "s3 = fst (fill s2 (py ''availability'') (infer_availability rt soup))"
  have get_fill: "dict_get (fst (fill d k v)) k' =
      (if k' = k \<and> \<not> nonempty (dict_get d k) then v else dict_get d k')" for d k v k'
    by (simp add: fill_def dict_get_dict_set)
  have ran_fill: "snd (fill d k v) = (if nonempty (dict_get d k) then [] else [k])" for d k v
    by (simp add: fill_def)
  have t: "dict_get s3 (py ''title'') = filled rt soup mapping (py ''title'') (infer_title rt soup)"
    by (simp add: s3_def s2_def s1_def get_fill field_names_distinct filled_def selected_def s0_def)
  have p: "dict_get s3 (py ''price'') = filled rt soup mapping (py ''price'') (infer_price rt soup)"
    by (simp add: s3_def s2_def s1_def get_fill field_names_distinct filled_def selected_def s0_def)
  have a: "dict_get s3 (py ''availability'') =
      filled rt soup mapping (py ''availability'') (infer_availability rt soup)"
    by (simp add: s3_def s2_def s1_def get_fill field_names_distinct filled_def selected_def s0_def)
  have ran: "snd (fill s0 (py ''title'') (infer_title rt soup)) @
      snd (fill s1 (py ''price'') (infer_price rt soup)) @
      snd (fill s2 (py ''availability'') (infer_availability rt soup)) =
      heuristics_run rt soup mapping"
    by (simp add: ran_fill s2_def s1_def get_fill field_names_distinct heuristics_run_def
        expected_keys_def selected_def s0_def)
  have norm: "normalize_fields rt utcnow s3 = normalize_fields rt utcnow
      [(py ''title'', filled rt soup mapping (py ''title'') (infer_title rt soup)),
       (py ''price'', filled rt soup mapping (py ''price'') (infer_price rt soup)),
       (py ''availability'', filled rt soup mapping (py ''availability'')
          (infer_availability rt soup))]"
    unfolding normalize_fields_shape
    by (simp add: t p a) (simp add: dict_get_def field_names_distinct)
  have "extract_from_html rt utcnow html mapping =
      (case normalize_fields rt utcnow s3 of
         Inl e \<Rightarrow> Inl e
       | Inr normalized \<Rightarrow>
           Inr (normalized, snd (fill s0 (py ''title'') (infer_title rt soup)) @
             snd (fill s1 (py ''price'') (infer_price rt soup)) @
             snd (fill s2 (py ''availability'') (infer_availability rt soup))))"
    unfolding s3_def s2_def s1_def s0_def soup_def
    by (simp add: extract_from_html_def apply_selectors_def split_beta Let_def)
  then have "extract_from_html rt utcnow html mapping =
      (case normalize_fields rt utcnow
         [(py ''title'', filled rt soup mapping (py ''title'') (infer_title rt soup)),
          (py ''price'', filled rt soup mapping (py ''price'') (infer_price rt soup)),
          (py ''availability'', filled rt soup mapping (py ''availability'')
             (infer_availability rt soup))] of
         Inl e \<Rightarrow> Inl e
       | Inr normalized \<Rightarrow> Inr (normalized, heuristics_run rt soup mapping))"
    by (simp only: norm ran)
  then show ?thesis
    by (simp only: soup_def)
qed

lemma extract_from_html_shape:
  "extract_from_html rt utcnow html mapping =
     Inr (PDict
       [(py ''title'', case_option PNone PStr
           (filled rt (BeautifulSoup rt html) mapping (py ''title'')
              (infer_title rt (BeautifulSoup rt html)))),
        (py ''price'', PDict
           [(py ''raw'', case_option PNone PStr
               (filled rt (BeautifulSoup rt html) mapping (py ''price'')
                  (infer_price rt (BeautifulSoup rt html)))),
            (py ''amount'', amount_of rt
               (filled rt (BeautifulSoup rt html) mapping (py ''price'')
                  (infer_price rt (BeautifulSoup rt html)))),
            (py ''currency'', currency_of rt
               (filled rt (BeautifulSoup rt html) mapping (py ''price'')
                  (infer_price rt (BeautifulSoup rt html))))]),
        (py ''availability'', case_option PNone PStr
           (filled rt (BeautifulSoup rt html) mapping (py ''availability'')
              (infer_availability rt (BeautifulSoup rt html)))),
        (py ''extraction_timestamp'', PStr (utcnow @ py ''Z''))],
       heuristics_run rt (BeautifulSoup rt html) mapping)"
  unfolding extract_from_html_raw normalize_fields_shape amount_of_def currency_of_def
  by (simp add: dict_get_def field_names_distinct)

lemma selected_eq:
  "selected rt soup mapping k =
     (case map_of (rev mapping) k of
        None \<Rightarrow> None
      | Some selector \<Rightarrow> fst (select_field rt soup selector))"
  by (simp add: selected_def loop_get split: option.splits) (simp add: dict_get_def)

lemma map_of_rev_filter:
  "P k \<Longrightarrow> map_of (rev (filter (\<lambda>(k, v). P k) xs)) k = map_of (rev xs) k"
  by (induction xs) (auto simp: map_add_def split: option.splits)

lemma selected_filter:
  "P k \<Longrightarrow> selected rt soup (filter (\<lambda>(k, v). P k) mapping) k = selected rt soup mapping k"
  by (simp add: selected_eq map_of_rev_filter)

lemma expected_keys_mem:
  "py ''title'' \<in> set expected_keys" "py ''price'' \<in> set expected_keys"
  "py ''availability'' \<in> set expected_keys"
  by (simp_all add: expected_keys_def)

lemma heuristics_run_filter:
  "heuristics_run rt soup (filter (\<lambda>(k, v). k \<in> set expected_keys) mapping) =
     heuristics_run rt soup mapping"
  unfolding heuristics_run_def
  by (rule filter_cong) (simp_all add: selected_filter [where P = "\<lambda>k. k \<in> set expected_keys"])

lemma extract_from_html_filter:
  "extract_from_html rt utcnow html (filter (\<lambda>(k, v). k \<in> set expected_keys) mapping) =
     extract_from_html rt utcnow html mapping"
  unfolding extract_from_html_shape filled_def heuristics_run_filter
  by (simp add: selected_filter [where P = "\<lambda>k. k \<in> set expected_keys"] expected_keys_mem)

section \<open>The example page, evaluated\<close>

lemmas document_ops = all_strings_def get_text_def tag_text_def is_tag_def
  find_all_def find_first_def named_def attr_get_def class_get_def

lemmas heuristic_ops = infer_title_def og_title_def twitter_title_def infer_price_def
  price_keywords_def has_price_keyword_def class_label_def id_label_def
  infer_availability_def availability_phrases_def

lemmas page_ops = page_runtime_def sample_page_def


lemma sample_price: "infer_price (page_runtime sample_page) sample_page = Some (RUPEE # py ''1049'')"
  by (simp add: page_ops heuristic_ops document_ops string_ops regex_ops ascii_ops nonempty_def)

lemma sample_availability:
  "infer_availability (page_runtime sample_page) sample_page =
     Some (py ''ve. ships free worldwide. now in stock.'')"
  by (simp add: page_ops heuristic_ops document_ops string_ops regex_ops ascii_ops nonempty_def)

lemma page_runtime_simps:
  "BeautifulSoup (page_runtime page) html = page"
  "select_one (page_runtime page) = ascii_select_one"
  "unicode_decimal (page_runtime page) = unicode_decimal ascii_runtime"
  "unicode_isspace (page_runtime page) = unicode_isspace ascii_runtime"
  "str_lower (page_runtime page) = str_lower ascii_runtime"
  by (simp_all add: page_runtime_def ascii_runtime_def)

lemma sample_amount:
  "amount_of (page_runtime sample_page) (Some (RUPEE # py ''1049'')) = PNum 1049"
  by (simp add: amount_of_def py_float_def digits_value_def page_runtime_simps
      string_ops regex_ops ascii_ops)

lemma sample_currency:
  "currency_of (page_runtime sample_page) (Some (RUPEE # py ''1049'')) = PStr [RUPEE]"
  by (simp add: currency_of_def page_runtime_simps string_ops regex_ops ascii_ops)


section \<open>Selected values\<close>

lemma get_text_strip:
  "get_text rt sep True tag =
     str_join sep (filter (\<lambda>s. s \<noteq> []) (map (str_strip rt) (all_strings rt False tag)))"
  by (simp add: get_text_def all_strings_def)

lemma select_field_value:
  "fst (select_field rt soup selector) =
     (if \<not> truthy selector then None
      else (case select_one rt soup selector of
              Inr (Some tag) \<Rightarrow> Some (get_text rt (py '' '') True tag)
            | _ \<Rightarrow> None))"
  by (simp add: select_field_def split: sum.splits option.splits)

lemma select_field_strings:
  "fst (select_field rt soup selector) =
     (if \<not> truthy selector then None
      else (case select_one rt soup selector of
              Inr (Some tag) \<Rightarrow>
                Some (str_join (py '' '')
                  (filter (\<lambda>s. s \<noteq> []) (map (str_strip rt) (all_strings rt False tag))))
            | _ \<Rightarrow> None))"
  by (simp add: select_field_def get_text_strip split: sum.splits option.splits)

lemma selected_distinct:
  assumes "distinct (map fst mapping)" "(f, selector) \<in> set mapping"
  shows "selected rt soup mapping f = fst (select_field rt soup selector)"
proof -
  from assms have "map_of (rev mapping) f = Some selector"
    by (simp add: map_of_rev_distinct)
  then show ?thesis by (simp add: selected_eq)
qed

lemma selected_absent:
  assumes "f \<notin> fst ` set mapping"
  shows "selected rt soup mapping f = None"
proof -
  from assms have "map_of (rev mapping) f = None"
    by (simp add: map_of_eq_None_iff)
  then show ?thesis by (simp add: selected_eq)
qed

lemma shape_items:
  "item (PDict [(py ''title'', t), (py ''price'', p), (py ''availability'', v),
      (py ''extraction_timestamp'', ts)]) (py ''title'') = t"
  "item (PDict [(py ''title'', t), (py ''price'', p), (py ''availability'', v),
      (py ''extraction_timestamp'', ts)]) (py ''price'') = p"
  "item (PDict [(py ''title'', t), (py ''price'', p), (py ''availability'', v),
      (py ''extraction_timestamp'', ts)]) (py ''availability'') = v"
  by (simp_all add: item_def pd_get_def py_def)

section \<open>Searching strings and documents\<close>

lemma str_find_Some:
  "str_find sub s = Some i \<Longrightarrow>
     i \<le> length s \<and> take (length sub) (drop i s) = sub \<and>
     (\<forall>j < i. take (length sub) (drop j s) \<noteq> sub)"
proof (induction s arbitrary: i)
  case Nil
  then show ?case by (simp split: if_splits)
next
  case (Cons c s)
  show ?case
  proof (cases "take (length sub) (c # s) = sub")
    case True
    with Cons.prems show ?thesis by simp
  next
    case False
    with Cons.prems obtain i' where i': "str_find sub s = Some i'" "i = Suc i'" by auto
    from Cons.IH [OF i'(1)] have ih: "i' \<le> length s" "take (length sub) (drop i' s) = sub"
      "\<forall>j < i'. take (length sub) (drop j s) \<noteq> sub" by simp_all
    have "\<forall>j < Suc i'. take (length sub) (drop j (c # s)) \<noteq> sub"
    proof (intro allI impI)
      fix j assume "j < Suc i'"
      then show "take (length sub) (drop j (c # s)) \<noteq> sub"
        using False ih(3) by (cases j) auto
    qed
    with ih i'(2) show ?thesis by simp
  qed
qed

lemma str_find_None:
  "str_find sub s = None \<Longrightarrow> \<forall>j \<le> length s. take (length sub) (drop j s) \<noteq> sub"
proof (induction s)
  case Nil
  then show ?case by (simp split: if_splits)
next
  case (Cons c s)
  from Cons.prems have here: "take (length sub) (c # s) \<noteq> sub" and rest: "str_find sub s = None"
    by (auto split: if_splits)
  show ?case
  proof (intro allI impI)
    fix j assume "j \<le> length (c # s)"
    then show "take (length sub) (drop j (c # s)) \<noteq> sub"
      using here Cons.IH [OF rest] by (cases j) auto
  qed
qed

lemma scan_phrases_none:
  "(\<forall>ph \<in> set phrases. \<not> str_contains ph text) \<Longrightarrow> scan_phrases rt text phrases = None"
  by (induction phrases) auto

lemma scan_phrases_first:
  assumes "\<forall>x \<in> set xs. \<not> str_contains x text" "str_find ph text = Some idx"
  shows "scan_phrases rt text (xs @ ph # ys) =
     Some (str_strip rt (str_slice text (idx - 30) (idx + 50)))"
  using assms by (induction xs) (auto simp: str_contains_def)

lemma find_first_Some:
  assumes "find_first soup test = Some t"
  shows "\<exists>before after. descendants soup = before @ t # after \<and> is_tag t \<and> test t \<and>
           (\<forall>d \<in> set before. \<not> (is_tag d \<and> test d))"
proof -
  from assms obtain ts where f: "filter (\<lambda>d. is_tag d \<and> test d) (descendants soup) = t # ts"
    by (auto simp: find_first_def find_all_def split: list.splits)
  from filter_eq_ConsD [OF f] show ?thesis by auto
qed



lemma sample_text:
  "str_lower (page_runtime sample_page) (get_text (page_runtime sample_page) (py '' '') True sample_page) =
     py ''widget '' @ RUPEE #
       py ''1049 pre-order today and save. ships free worldwide. now in stock.''"
  by (simp add: page_runtime_simps sample_page_def document_ops string_ops ascii_runtime_def)

lemma sample_find_preorder:
  "str_find (py ''pre-order'') (py ''widget '' @ RUPEE #
       py ''1049 pre-order today and save. ships free worldwide. now in stock.'') = Some 13"
  by (simp add: py_def)

lemma sample_find_in_stock:
  "str_find (py ''in stock'') (py ''widget '' @ RUPEE #
       py ''1049 pre-order today and save. ships free worldwide. now in stock.'') = Some 65"
  by (simp add: py_def)

lemma scan_tags_first:
  "scan_tags rt label tags = first_result (map (keyword_match rt label) tags)"
  by (induction tags) (auto simp: keyword_match_def split: option.splits)

lemma infer_price_priority:
  "infer_price rt soup =
     first_result
       (map (keyword_match rt class_label) (find_all soup (\<lambda>d. class_get d \<noteq> None)) @
        map (keyword_match rt id_label) (find_all soup (\<lambda>d. attr_get d (py ''id'') \<noteq> None)) @
        [re_search (CURRENCY_RE rt) (get_text rt (py '' '') True soup)])"
proof -
  have app: "first_result (xs @ ys) =
      (case first_result xs of Some v \<Rightarrow> Some v | None \<Rightarrow> first_result ys)"
    for xs ys :: "pystr option list"
    by (induction xs) (auto split: option.splits)
  show ?thesis
    by (simp add: infer_price_def scan_tags_first app split: option.splits)
qed

section \<open>The fallback loop and the merge\<close>

lemma llm_infer_selectors_returns:
  "\<exists>out. llm_infer_selectors rt html api_key = Inr out"
  by (simp add: llm_infer_selectors_def)

lemma merge_keys_length: "length (merge_keys h m inferred keys) = length h"
  by (induction keys arbitrary: h) auto

lemma merge_keys_other:
  "i \<noteq> m \<Longrightarrow> merge_keys h m inferred keys ! i = h ! i"
  by (induction keys arbitrary: h) auto

lemma merge_keys_get:
  "m < length h \<Longrightarrow>
   pd_get (merge_keys h m inferred keys ! m) k =
     (if k \<in> set keys \<and> truthy (pd_get inferred k) \<and> \<not> truthy (pd_get (h ! m) k)
      then pd_get inferred k else pd_get (h ! m) k)"
proof (induction keys arbitrary: h)
  case Nil
  show ?case by simp
next
  case (Cons key keys)
  define h' where "h' =
    (if truthy (pd_get inferred key) \<and> \<not> truthy (pd_get (h ! m) key)
     then h[m := dict_set (h ! m) key (pd_get inferred key)] else h)"
  have len: "m < length h'" using Cons.prems by (simp add: h'_def)
  have step: "merge_keys h m inferred (key # keys) = merge_keys h' m inferred keys"
    by (simp add: h'_def)
  have get: "pd_get (h' ! m) k =
      (if k = key \<and> truthy (pd_get inferred key) \<and> \<not> truthy (pd_get (h ! m) key)
       then pd_get inferred key else pd_get (h ! m) k)"
    using Cons.prems by (simp add: h'_def pd_get_dict_set)
  show ?case
    unfolding step Cons.IH [OF len] get by auto
qed


lemma try_models_first_success:
  "(\<forall>x \<in> set xs. isl (attempt rt api_key prompt x)) \<Longrightarrow>
   attempt rt api_key prompt m = Inr kvs \<Longrightarrow>
   try_models rt api_key prompt (xs @ m # ys) acc =
     acc\<lparr>suggestion := kvs, attempted := attempted acc @ xs @ [m],
         errors := record_failures rt api_key prompt xs (errors acc)\<rparr>"
proof (induction xs arbitrary: acc)
  case Nil
  then show ?case by (simp add: record_failures_def)
next
  case (Cons x xs)
  from Cons.prems obtain msg where msg: "attempt rt api_key prompt x = Inl (Exception msg)"
    by (cases "attempt rt api_key prompt x") (auto intro: exn.exhaust)
  from Cons.prems have rest: "\<forall>x \<in> set xs. isl (attempt rt api_key prompt x)" by simp
  show ?case
    by (simp add: msg Cons.IH [OF rest Cons.prems(2)] record_failures_def failure_message_def)
qed



lemma backend_attempt_first:
  "attempt backend_runtime api_key prompt (py ''gemini-2.5-flash'') =
     Inl (Exception (py ''503 UNAVAILABLE''))"
  by (simp add: attempt_def backend_runtime_def)

lemma backend_strip_fence:
  "strip_fence backend_runtime (FENCE @ py ''json'' @ [0x0A] @ sample_json @ [0x0A] @ FENCE) =
     Inr sample_json"
  by (simp add: strip_fence_def split_tail_def split_head_def FENCE_def sample_json_def
      backend_runtime_def ascii_runtime_def string_ops)

lemma backend_strip:
  "str_strip backend_runtime (FENCE @ py ''json'' @ [0x0A] @ sample_json @ [0x0A] @ FENCE) =
     FENCE @ py ''json'' @ [0x0A] @ sample_json @ [0x0A] @ FENCE"
  by (simp add: FENCE_def sample_json_def backend_runtime_def ascii_runtime_def string_ops)

lemma backend_attempt_second:
  "attempt backend_runtime api_key prompt (py ''gemini-2.0-flash'') =
     Inr [(py ''title'', PStr (py ''h2'')), (py ''price'', PStr (py ''span''))]"
proof -
  have g: "generate_content backend_runtime api_key (py ''gemini-2.0-flash'') prompt =
      Inr (Some (FENCE @ py ''json'' @ [0x0A] @ sample_json @ [0x0A] @ FENCE))"
    by (simp add: backend_runtime_def py_def)
  have j: "json_loads backend_runtime sample_json =
      Inr (PDict [(py ''title'', PStr (py ''h2'')), (py ''price'', PStr (py ''span''))])"
    by (simp add: backend_runtime_def)
  have n: "FENCE @ py ''json'' @ [0x0A] @ sample_json @ [0x0A] @ FENCE \<noteq> []"
    by (simp add: FENCE_def)
  have acc: "accepted (PDict [(py ''title'', PStr (py ''h2'')), (py ''price'', PStr (py ''span''))])"
    by (simp add: accepted_def expected_keys_def)
  show ?thesis
    unfolding attempt_def g
    by (simp only: sum.case option.case Let_def backend_strip n if_False backend_strip_fence j
        pyval.case acc if_True)
qed

lemma backend_failures:
  "record_failures backend_runtime api_key prompt [py ''gemini-2.5-flash''] [] =
     [(py ''gemini-2.5-flash'', py ''503 UNAVAILABLE'')]"
  by (simp add: record_failures_def failure_message_def backend_attempt_first)

lemma backend_installed: "genai_installed backend_runtime"
  by (simp add: backend_runtime_def ascii_runtime_def)

lemma backend_llm:
  "llm_infer_selectors backend_runtime html (Some (py ''key'')) =
     Inr \<lparr>suggestion = [(py ''title'', PStr (py ''h2'')), (py ''price'', PStr (py ''span''))],
          attempted = [py ''gemini-2.5-flash'', py ''gemini-2.0-flash''],
          errors = [(py ''gemini-2.5-flash'', py ''503 UNAVAILABLE'')]\<rparr>"
proof -
  have k: "nonempty (Some (py ''key''))" by (simp add: nonempty_def py_def)
  have m: "models_to_try = [py ''gemini-2.5-flash''] @ py ''gemini-2.0-flash'' #
      [py ''gemini-1.5-flash'', py ''gemini-1.5-pro'']"
    by (simp add: models_to_try_def)
  have f: "\<forall>x \<in> set [py ''gemini-2.5-flash''].
      isl (attempt backend_runtime (py ''key'') (build_prompt html) x)"
    by (simp add: backend_attempt_first)
  have run: "try_models backend_runtime (py ''key'') (build_prompt html) models_to_try
      \<lparr>suggestion = [], attempted = [], errors = []\<rparr> =
      \<lparr>suggestion = [(py ''title'', PStr (py ''h2'')), (py ''price'', PStr (py ''span''))],
       attempted = [py ''gemini-2.5-flash'', py ''gemini-2.0-flash''],
       errors = [(py ''gemini-2.5-flash'', py ''503 UNAVAILABLE'')]\<rparr>"
    unfolding m
    by (rule trans [OF try_models_first_success [OF f backend_attempt_second]])
      (simp add: backend_failures)
  show ?thesis
    by (simp add: llm_infer_selectors_def k backend_installed run)
qed

section \<open>C1: the price object built by the normalizer\<close>




section \<open>C2: the price heuristic and the currency pattern\<close>

text \<open>
  The three strategies and their order are as C2 says (\<open>infer_price_priority\<close>), and the
  example page with \<open>class="price"\<close> around the rupee sign and \<open>1049\<close> gives the price
  object of the example (\<open>sample_extract\<close>).

  C2, the currency pattern. The claim describes a symbol, optional whitespace and a
  digit group with thousands separators and an optional fraction. In \<open>CURRENCY_RE\<close> the
  quantifier \<open>{1,3}\<close> stands inside the bracket expression, so braces count as
  digit-group characters: for a price element with the text \<open>${10}\<close> the heuristic
  returns the dollar sign, an opening brace and \<open>10\<close>, a string with a character that
  no currency pattern of the claim can hold; the record gets the currency \<open>$\<close> and no
  amount.
\<close>

theorem brace_price_match:
  "infer_price (page_runtime brace_page) brace_page = Some (py ''${10'') \<and>
   \<not> list_all (spec_currency_char (page_runtime brace_page)) (py ''${10'') \<and>
   extract_from_html (page_runtime brace_page) (py ''2025-01-01T00:00:00'') [] [] =
     Inr (PDict
       [(py ''title'', PNone),
        (py ''price'', PDict
           [(py ''raw'', PStr (py ''${10'')),
            (py ''amount'', PNone),
            (py ''currency'', PStr (py ''$''))]),
        (py ''availability'', PNone),
        (py ''extraction_timestamp'', PStr (py ''2025-01-01T00:00:00Z''))],
       [py ''title'', py ''price'', py ''availability''])"
proof -
  let ?rt = "page_runtime brace_page"
  have p: "infer_price ?rt brace_page = Some (py ''${10'')"
    by (simp add: page_runtime_simps brace_page_def heuristic_ops document_ops string_ops
        regex_ops ascii_runtime_def nonempty_def)
  have c: "\<not> list_all (spec_currency_char ?rt) (py ''${10'')"
    by (simp add: spec_currency_char_def is_currency_symbol_def page_runtime_simps isdigit_def
        ascii_runtime_def py_def)
  have t: "infer_title ?rt brace_page = None"
    by (simp add: page_runtime_simps brace_page_def heuristic_ops document_ops string_ops
        ascii_runtime_def nonempty_def)
  have v: "infer_availability ?rt brace_page = None"
    by (simp add: page_runtime_simps brace_page_def heuristic_ops document_ops string_ops
        ascii_runtime_def nonempty_def)
  have a: "amount_of ?rt (Some (py ''${10'')) = PNone"
    by (simp add: amount_of_def py_float_def page_runtime_simps string_ops regex_ops ascii_ops)
  have u: "currency_of ?rt (Some (py ''${10'')) = PStr (py ''$'')"
    by (simp add: currency_of_def page_runtime_simps string_ops regex_ops ascii_ops)
  have x: "extract_from_html ?rt (py ''2025-01-01T00:00:00'') [] [] =
     Inr (PDict
       [(py ''title'', PNone),
        (py ''price'', PDict
           [(py ''raw'', PStr (py ''${10'')),
            (py ''amount'', PNone),
            (py ''currency'', PStr (py ''$''))]),
        (py ''availability'', PNone),
        (py ''extraction_timestamp'', PStr (py ''2025-01-01T00:00:00Z''))],
       [py ''title'', py ''price'', py ''availability''])"
    unfolding extract_from_html_shape
    by (simp add: page_runtime_simps(1) filled_def heuristics_run_def selected_eq nonempty_def
        t p v a u expected_keys_def)
      (simp add: py_def)
  show ?thesis by (intro conjI p c x)
qed

section \<open>C3: the availability heuristic\<close>

text \<open>
  C3. \<open>infer_availability\<close> works on the lower-cased text of the document and tries the
  phrases \<open>in stock\<close>, \<open>out of stock\<close>, \<open>available\<close>, \<open>pre-order\<close>, \<open>preorder\<close> in
  this order. When none occurs the result is \<open>None\<close>. Otherwise the first phrase of
  the list that occurs anywhere decides: with \<open>idx\<close> its first position in the text,
  the result is the text from 30 characters before \<open>idx\<close> (or from the start) to 50
  characters after it, stripped. In particular, as soon as \<open>in stock\<close> occurs, the window
  is the one around \<open>in stock\<close>, whatever other phrase comes earlier in the text.
\<close>

theorem infer_availability_phrase_order:
  "availability_phrases =
     [py ''in stock'', py ''out of stock'', py ''available'', py ''pre-order'', py ''preorder''] \<and>
   ((\<forall>ph \<in> set availability_phrases.
       \<not> str_contains ph (str_lower rt (get_text rt (py '' '') True soup))) \<longrightarrow>
      infer_availability rt soup = None) \<and>
   (\<forall>xs ph ys idx.
      availability_phrases = xs @ ph # ys \<and>
      (\<forall>x \<in> set xs. \<not> str_contains x (str_lower rt (get_text rt (py '' '') True soup))) \<and>
      str_find ph (str_lower rt (get_text rt (py '' '') True soup)) = Some idx \<longrightarrow>
      infer_availability rt soup =
        Some (str_strip rt
          (str_slice (str_lower rt (get_text rt (py '' '') True soup)) (idx - 30) (idx + 50))) \<and>
      take (length ph) (drop idx (str_lower rt (get_text rt (py '' '') True soup))) = ph \<and>
      (\<forall>j < idx. take (length ph) (drop j (str_lower rt (get_text rt (py '' '') True soup))) \<noteq> ph)) \<and>
   (\<forall>idx. str_find (py ''in stock'') (str_lower rt (get_text rt (py '' '') True soup)) = Some idx \<longrightarrow>
      infer_availability rt soup =
        Some (str_strip rt
          (str_slice (str_lower rt (get_text rt (py '' '') True soup)) (idx - 30) (idx + 50))))"
proof -
  define lowered where "lowered = str_lower rt (get_text rt (py '' '') True soup)"
  have list: "availability_phrases =
     [py ''in stock'', py ''out of stock'', py ''available'', py ''pre-order'', py ''preorder'']"
    by (simp add: availability_phrases_def)
  have none: "(\<forall>ph \<in> set availability_phrases. \<not> str_contains ph lowered) \<longrightarrow>
      infer_availability rt soup = None"
    by (simp add: infer_availability_def lowered_def [symmetric] scan_phrases_none)
  have first: "\<forall>xs ph ys idx.
      availability_phrases = xs @ ph # ys \<and>
      (\<forall>x \<in> set xs. \<not> str_contains x lowered) \<and> str_find ph lowered = Some idx \<longrightarrow>
      infer_availability rt soup = Some (str_strip rt (str_slice lowered (idx - 30) (idx + 50))) \<and>
      take (length ph) (drop idx lowered) = ph \<and>
      (\<forall>j < idx. take (length ph) (drop j lowered) \<noteq> ph)"
  proof (intro allI impI, elim conjE)
    fix xs ph ys idx
    assume a: "availability_phrases = xs @ ph # ys" "\<forall>x \<in> set xs. \<not> str_contains x lowered"
      "str_find ph lowered = Some idx"
    have "infer_availability rt soup = scan_phrases rt lowered (xs @ ph # ys)"
      by (simp add: infer_availability_def lowered_def [symmetric] a(1))
    with scan_phrases_first [OF a(2,3)] str_find_Some [OF a(3)]
    show "infer_availability rt soup = Some (str_strip rt (str_slice lowered (idx - 30) (idx + 50))) \<and>
      take (length ph) (drop idx lowered) = ph \<and>
      (\<forall>j < idx. take (length ph) (drop j lowered) \<noteq> ph)"
      by simp
  qed
  have stock: "\<forall>idx. str_find (py ''in stock'') lowered = Some idx \<longrightarrow>
      infer_availability rt soup = Some (str_strip rt (str_slice lowered (idx - 30) (idx + 50)))"
  proof (intro allI impI)
    fix idx assume a: "str_find (py ''in stock'') lowered = Some idx"
    have "infer_availability rt soup =
        scan_phrases rt lowered ([] @ py ''in stock'' #
          [py ''out of stock'', py ''available'', py ''pre-order'', py ''preorder''])"
      by (simp add: infer_availability_def lowered_def [symmetric] availability_phrases_def)
    also have "\<dots> = Some (str_strip rt (str_slice lowered (idx - 30) (idx + 50)))"
      by (rule scan_phrases_first [OF _ a]) simp
    finally show "infer_availability rt soup =
        Some (str_strip rt (str_slice lowered (idx - 30) (idx + 50)))" .
  qed
  show ?thesis
    unfolding lowered_def [symmetric] by (intro conjI list none first stock)
qed

text \<open>
  An instance: on the example page \<open>pre-order\<close> is at position 13 and \<open>in stock\<close> at
  position 65; the window starts at position 35 and does not reach back to \<open>pre-order\<close>.
\<close>

theorem infer_availability_phrase_order_witness:
  "str_find (py ''pre-order'')
     (str_lower (page_runtime sample_page)
        (get_text (page_runtime sample_page) (py '' '') True sample_page)) = Some 13 \<and>
   str_find (py ''in stock'')
     (str_lower (page_runtime sample_page)
        (get_text (page_runtime sample_page) (py '' '') True sample_page)) = Some 65 \<and>
   infer_availability (page_runtime sample_page) sample_page =
     Some (py ''ve. ships free worldwide. now in stock.'')"
proof -
  let ?rt = "page_runtime sample_page"
  let ?t = "str_lower ?rt (get_text ?rt (py '' '') True sample_page)"
  have p: "str_find (py ''pre-order'') ?t = Some 13"
    by (simp only: sample_text sample_find_preorder)
  have s: "str_find (py ''in stock'') ?t = Some 65"
    by (simp only: sample_text sample_find_in_stock)
  from infer_availability_phrase_order [of ?rt sample_page]
  have "\<forall>idx. str_find (py ''in stock'') ?t = Some idx \<longrightarrow>
      infer_availability ?rt sample_page =
        Some (str_strip ?rt (str_slice ?t (idx - 30) (idx + 50)))"
    by (elim conjE)
  from this [rule_format, OF s]
  have "infer_availability ?rt sample_page = Some (str_strip ?rt (str_slice ?t (65 - 30) (65 + 50)))" .
  also have "str_strip ?rt (str_slice ?t (65 - 30) (65 + 50)) =
      py ''ve. ships free worldwide. now in stock.''"
    unfolding sample_text
    by (simp add: page_runtime_simps string_ops ascii_runtime_def)
  finally show ?thesis using p s by simp
qed

section \<open>C4: when a heuristic runs\<close>

text \<open>
  C4 as stated lets a heuristic run only for a field that the selector applier left
  \<open>None\<close>, and never when the selector matched an element. The guard is
  \<open>if not selected.get(field)\<close>, which is also true of the empty string: on a page whose
  first \<open>h1\<close> is empty, the selector \<open>h1\<close> matches, the applier stores the empty string,
  and the title heuristic runs and supplies the text of the \<open>h2\<close>.
\<close>

theorem empty_match_counterexample:
  "select_one (page_runtime empty_heading_page) empty_heading_page (PStr (py ''h1'')) =
     Inr (Some (Tag (py ''h1'') None [] [])) \<and>
   apply_selectors (page_runtime empty_heading_page) empty_heading_page
     [(py ''title'', PStr (py ''h1''))] = Inr ([(py ''title'', Some [])], [PStr (py ''h1'')]) \<and>
   extract_from_html (page_runtime empty_heading_page) (py ''2025-01-01T00:00:00'') []
     [(py ''title'', PStr (py ''h1''))] =
     Inr (PDict
       [(py ''title'', PStr (py ''Widget'')),
        (py ''price'', PDict
           [(py ''raw'', PNone), (py ''amount'', PNone), (py ''currency'', PNone)]),
        (py ''availability'', PNone),
        (py ''extraction_timestamp'', PStr (py ''2025-01-01T00:00:00Z''))],
       [py ''title'', py ''price'', py ''availability''])"
proof -
  let ?rt = "page_runtime empty_heading_page"
  have s: "select_one ?rt empty_heading_page (PStr (py ''h1'')) =
      Inr (Some (Tag (py ''h1'') None [] []))"
    by (simp add: page_runtime_simps ascii_select_one_def empty_heading_page_def document_ops
        string_ops)
  have f: "select_field ?rt empty_heading_page (PStr (py ''h1'')) = (Some [], [PStr (py ''h1'')])"
    by (simp add: select_field_def s) (simp add: document_ops py_def)
  have a: "apply_selectors ?rt empty_heading_page [(py ''title'', PStr (py ''h1''))] =
      Inr ([(py ''title'', Some [])], [PStr (py ''h1'')])"
    by (simp add: apply_selectors_def f)
  have t: "infer_title ?rt empty_heading_page = Some (py ''Widget'')"
    by (simp add: page_runtime_simps empty_heading_page_def heuristic_ops document_ops string_ops
        ascii_runtime_def nonempty_def)
  have p: "infer_price ?rt empty_heading_page = None"
    by (simp add: page_runtime_simps empty_heading_page_def heuristic_ops document_ops string_ops
        regex_ops ascii_runtime_def nonempty_def)
  have v: "infer_availability ?rt empty_heading_page = None"
    by (simp add: page_runtime_simps empty_heading_page_def heuristic_ops document_ops string_ops
        ascii_runtime_def nonempty_def)
  have x: "extract_from_html ?rt (py ''2025-01-01T00:00:00'') [] [(py ''title'', PStr (py ''h1''))] =
     Inr (PDict
       [(py ''title'', PStr (py ''Widget'')),
        (py ''price'', PDict
           [(py ''raw'', PNone), (py ''amount'', PNone), (py ''currency'', PNone)]),
        (py ''availability'', PNone),
        (py ''extraction_timestamp'', PStr (py ''2025-01-01T00:00:00Z''))],
       [py ''title'', py ''price'', py ''availability''])"
    unfolding extract_from_html_shape
    by (simp add: page_runtime_simps(1) filled_def heuristics_run_def selected_eq nonempty_def
        f t p v amount_of_def currency_of_def expected_keys_def field_names_distinct)
      (simp add: py_def)
  show ?thesis by (intro conjI s a x)
qed

text \<open>
  C4, amended. \<open>extract_from_html\<close> runs the heuristic of a field exactly when the
  value the selector applier left for it is \<open>None\<close> or the empty string; the heuristics
  that run are recorded in field order. A field whose selected value is a non-empty
  string keeps it: it is the record's \<open>title\<close>, \<open>price.raw\<close> or \<open>availability\<close>. With
  distinct keys, a non-empty selector that matches an element leaves that element's
  text as the selected value, so when that text is not empty the heuristic does not run.
\<close>

theorem heuristics_only_when_empty:
  "\<exists>rec ran.
     extract_from_html rt utcnow html mapping = Inr (rec, ran) \<and>
     ran = filter (\<lambda>f. \<not> nonempty (selected rt (BeautifulSoup rt html) mapping f))
             [py ''title'', py ''price'', py ''availability''] \<and>
     (\<forall>s. selected rt (BeautifulSoup rt html) mapping (py ''title'') = Some s \<and> s \<noteq> [] \<longrightarrow>
        item rec (py ''title'') = PStr s) \<and>
     (\<forall>s. selected rt (BeautifulSoup rt html) mapping (py ''price'') = Some s \<and> s \<noteq> [] \<longrightarrow>
        item (item rec (py ''price'')) (py ''raw'') = PStr s) \<and>
     (\<forall>s. selected rt (BeautifulSoup rt html) mapping (py ''availability'') = Some s \<and> s \<noteq> [] \<longrightarrow>
        item rec (py ''availability'') = PStr s) \<and>
     (\<forall>f selector tag.
        distinct (map fst mapping) \<and> (f, selector) \<in> set mapping \<and> truthy selector \<and>
        select_one rt (BeautifulSoup rt html) selector = Inr (Some tag) \<longrightarrow>
        selected rt (BeautifulSoup rt html) mapping f = Some (get_text rt (py '' '') True tag))"
proof -
  define soup where "soup = BeautifulSoup rt html"
  define rec where "rec = fst (projr (extract_from_html rt utcnow html mapping))"
  define ran where "ran = snd (projr (extract_from_html rt utcnow html mapping))"
  have r: "extract_from_html rt utcnow html mapping = Inr (rec, ran)"
    unfolding rec_def ran_def extract_from_html_shape by simp
  have ran: "ran = filter (\<lambda>f. \<not> nonempty (selected rt soup mapping f))
      [py ''title'', py ''price'', py ''availability'']"
    unfolding ran_def extract_from_html_shape soup_def
    by (simp add: heuristics_run_def expected_keys_def)
  have t: "\<forall>s. selected rt soup mapping (py ''title'') = Some s \<and> s \<noteq> [] \<longrightarrow>
      item rec (py ''title'') = PStr s"
    unfolding rec_def extract_from_html_shape soup_def
    by (simp add: shape_items filled_def nonempty_def)
  have p: "\<forall>s. selected rt soup mapping (py ''price'') = Some s \<and> s \<noteq> [] \<longrightarrow>
      item (item rec (py ''price'')) (py ''raw'') = PStr s"
    unfolding rec_def extract_from_html_shape soup_def
    by (simp add: shape_items price_parts filled_def nonempty_def)
  have a: "\<forall>s. selected rt soup mapping (py ''availability'') = Some s \<and> s \<noteq> [] \<longrightarrow>
      item rec (py ''availability'') = PStr s"
    unfolding rec_def extract_from_html_shape soup_def
    by (simp add: shape_items filled_def nonempty_def)
  have m: "\<forall>f selector tag.
      distinct (map fst mapping) \<and> (f, selector) \<in> set mapping \<and> truthy selector \<and>
      select_one rt soup selector = Inr (Some tag) \<longrightarrow>
      selected rt soup mapping f = Some (get_text rt (py '' '') True tag)"
    by (auto simp: selected_distinct select_field_value)
  show ?thesis
    unfolding soup_def [symmetric]
    by (rule exI [of _ rec], rule exI [of _ ran]) (intro conjI r ran t p a m)
qed

text \<open>An instance: the example page with the title selector \<open>h1\<close>.\<close>

theorem heuristics_only_when_empty_witness:
  "distinct (map fst [(py ''title'', PStr (py ''h1''))]) \<and>
   truthy (PStr (py ''h1'')) \<and>
   select_one (page_runtime sample_page) sample_page (PStr (py ''h1'')) =
     Inr (Some (Tag (py ''h1'') None [] [NavigableString (py ''Widget'')])) \<and>
   (\<exists>rec ran.
      extract_from_html (page_runtime sample_page) (py ''2025-01-01T00:00:00'') []
        [(py ''title'', PStr (py ''h1''))] = Inr (rec, ran) \<and>
      ran = [py ''price'', py ''availability''] \<and>
      item rec (py ''title'') = PStr (py ''Widget''))"
proof -
  let ?rt = "page_runtime sample_page"
  let ?m = "[(py ''title'', PStr (py ''h1''))]"
  let ?tag = "Tag (py ''h1'') None [] [NavigableString (py ''Widget'')]"
  have d: "distinct (map fst ?m)" by simp
  have tr: "truthy (PStr (py ''h1''))" by (simp add: py_def)
  have s: "select_one ?rt sample_page (PStr (py ''h1'')) = Inr (Some ?tag)"
    by (simp add: page_runtime_simps ascii_select_one_def sample_page_def document_ops string_ops)
  have g: "get_text ?rt (py '' '') True ?tag = py ''Widget''"
    by (simp add: page_runtime_simps document_ops string_ops ascii_runtime_def)
  from heuristics_only_when_empty [of ?rt "py ''2025-01-01T00:00:00''" "[]" ?m]
  obtain rec ran where
    r: "extract_from_html ?rt (py ''2025-01-01T00:00:00'') [] ?m = Inr (rec, ran)" and
    ran: "ran = filter (\<lambda>f. \<not> nonempty (selected ?rt (BeautifulSoup ?rt []) ?m f))
             [py ''title'', py ''price'', py ''availability'']" and
    t: "\<forall>s. selected ?rt (BeautifulSoup ?rt []) ?m (py ''title'') = Some s \<and> s \<noteq> [] \<longrightarrow>
        item rec (py ''title'') = PStr s" and
    m: "\<forall>f selector tag.
        distinct (map fst ?m) \<and> (f, selector) \<in> set ?m \<and> truthy selector \<and>
        select_one ?rt (BeautifulSoup ?rt []) selector = Inr (Some tag) \<longrightarrow>
        selected ?rt (BeautifulSoup ?rt []) ?m f = Some (get_text ?rt (py '' '') True tag)"
    by (elim exE conjE) (rule that)
  have st: "selected ?rt (BeautifulSoup ?rt []) ?m (py ''title'') = Some (py ''Widget'')"
    using m [rule_format, of "py ''title''" "PStr (py ''h1'')" ?tag] d tr s
    by (simp add: page_runtime_simps(1) g)
  have sp: "selected ?rt (BeautifulSoup ?rt []) ?m (py ''price'') = None"
    by (simp add: selected_eq field_names_distinct)
  have sa: "selected ?rt (BeautifulSoup ?rt []) ?m (py ''availability'') = None"
    by (simp add: selected_eq field_names_distinct)
  have ran': "ran = [py ''price'', py ''availability'']"
    unfolding ran by (simp add: st sp sa nonempty_def) (simp add: py_def)
  have title: "item rec (py ''title'') = PStr (py ''Widget'')"
    using t [rule_format, of "py ''Widget''"] st by (simp add: py_def)
  show ?thesis
    by (intro conjI d tr s exI [of _ rec] exI [of _ ran] r ran' title)
qed

section \<open>C5: the selector applier\<close>

text \<open>
  C5 as stated has the applier collapse runs of whitespace in the matched element's
  text. \<open>get_text(" ", strip=True)\<close> strips each text string at its ends and joins the
  strings with a blank; whitespace inside a string stays. For a heading whose text has
  two blanks in a row, collapsing gives one blank and the applier returns two.
\<close>

theorem whitespace_counterexample:
  "select_one (page_runtime spaced_page) spaced_page (PStr (py ''h1'')) =
     Inr (Some (Tag (py ''h1'') None [] [NavigableString (py ''Acme  Widget'')])) \<and>
   collapse_whitespace (page_runtime spaced_page)
     (tag_text (page_runtime spaced_page)
        (Tag (py ''h1'') None [] [NavigableString (py ''Acme  Widget'')])) = py ''Acme Widget'' \<and>
   apply_selectors (page_runtime spaced_page) spaced_page [(py ''title'', PStr (py ''h1''))] =
     Inr ([(py ''title'', Some (py ''Acme  Widget''))], [PStr (py ''h1'')])"
  by (simp add: page_runtime_simps ascii_select_one_def spaced_page_def collapse_whitespace_def
      apply_selectors_def select_field_def document_ops string_ops ascii_runtime_def)

text \<open>
  C5, amended. \<open>apply_selectors\<close> never raises. It hands to \<open>select_one\<close> exactly the
  selectors that are not empty, in order. A field that is not in the map has no value.
  With distinct keys, every field of the map gets a value of its own, whatever happens
  to the others: \<open>None\<close> when its selector is empty, when the engine raises and when
  nothing matches; otherwise the text strings below the matched element, each stripped
  at its ends, the empty ones dropped, joined by single blanks.
\<close>

theorem apply_selectors_fields:
  "\<exists>results evaluated.
     apply_selectors rt soup mapping = Inr (results, evaluated) \<and>
     evaluated = filter truthy (map snd mapping) \<and>
     (\<forall>f. f \<notin> fst ` set mapping \<longrightarrow> dict_get results f = None) \<and>
     (distinct (map fst mapping) \<longrightarrow>
        (\<forall>f selector. (f, selector) \<in> set mapping \<longrightarrow>
           dict_get results f =
             (if \<not> truthy selector then None
              else (case select_one rt soup selector of
                      Inr (Some tag) \<Rightarrow>
                        Some (str_join (py '' '')
                          (filter (\<lambda>s. s \<noteq> [])
                             (map (str_strip rt) (all_strings rt False tag))))
                    | _ \<Rightarrow> None))))"
proof -
  define results where "results = fst (apply_selectors_loop rt soup mapping ([], []))"
  define evaluated where "evaluated = snd (apply_selectors_loop rt soup mapping ([], []))"
  have r: "apply_selectors rt soup mapping = Inr (results, evaluated)"
    by (simp add: apply_selectors_def results_def evaluated_def)
  have e: "evaluated = filter truthy (map snd mapping)"
    by (simp add: evaluated_def loop_evaluated)
  have get: "dict_get results f = selected rt soup mapping f" for f
    by (simp add: results_def selected_def)
  have absent: "\<forall>f. f \<notin> fst ` set mapping \<longrightarrow> dict_get results f = None"
    by (simp add: get selected_absent)
  have present: "distinct (map fst mapping) \<longrightarrow>
        (\<forall>f selector. (f, selector) \<in> set mapping \<longrightarrow>
           dict_get results f =
             (if \<not> truthy selector then None
              else (case select_one rt soup selector of
                      Inr (Some tag) \<Rightarrow>
                        Some (str_join (py '' '')
                          (filter (\<lambda>s. s \<noteq> [])
                             (map (str_strip rt) (all_strings rt False tag))))
                    | _ \<Rightarrow> None)))"
    by (simp add: get selected_distinct select_field_strings)
  show ?thesis
    by (rule exI [of _ results], rule exI [of _ evaluated]) (intro conjI r e absent present)
qed

text \<open>An instance: one matching, one empty and one malformed selector.\<close>

theorem apply_selectors_fields_witness:
  "distinct (map fst [(py ''title'', PStr (py ''h1'')), (py ''price'', PStr []),
      (py ''availability'', PStr (py ''div[''))]) \<and>
   (\<exists>results evaluated.
      apply_selectors (page_runtime spaced_page) spaced_page
        [(py ''title'', PStr (py ''h1'')), (py ''price'', PStr []),
         (py ''availability'', PStr (py ''div[''))] = Inr (results, evaluated) \<and>
      evaluated = [PStr (py ''h1''), PStr (py ''div['')] \<and>
      dict_get results (py ''title'') = Some (py ''Acme  Widget'') \<and>
      dict_get results (py ''price'') = None \<and>
      dict_get results (py ''availability'') = None \<and>
      dict_get results (py ''sku'') = None)"
proof -
  let ?rt = "page_runtime spaced_page"
  let ?m = "[(py ''title'', PStr (py ''h1'')), (py ''price'', PStr []),
      (py ''availability'', PStr (py ''div[''))]"
  have d: "distinct (map fst ?m)" by (simp add: py_def)
  from apply_selectors_fields [of ?rt spaced_page ?m]
  obtain results evaluated where
    r: "apply_selectors ?rt spaced_page ?m = Inr (results, evaluated)" and
    e: "evaluated = filter truthy (map snd ?m)" and
    absent: "\<forall>f. f \<notin> fst ` set ?m \<longrightarrow> dict_get results f = None" and
    present: "distinct (map fst ?m) \<longrightarrow>
        (\<forall>f selector. (f, selector) \<in> set ?m \<longrightarrow>
           dict_get results f =
             (if \<not> truthy selector then None
              else (case select_one ?rt spaced_page selector of
                      Inr (Some tag) \<Rightarrow>
                        Some (str_join (py '' '')
                          (filter (\<lambda>s. s \<noteq> [])
                             (map (str_strip ?rt) (all_strings ?rt False tag))))
                    | _ \<Rightarrow> None)))"
    by (elim exE conjE) (rule that)
  have e': "evaluated = [PStr (py ''h1''), PStr (py ''div['')]"
    by (simp add: e py_def)
  have t: "dict_get results (py ''title'') = Some (py ''Acme  Widget'')"
    using present [rule_format, OF d, of "py ''title''" "PStr (py ''h1'')"]
    by (simp add: page_runtime_simps ascii_select_one_def spaced_page_def document_ops
        string_ops ascii_runtime_def)
  have p: "dict_get results (py ''price'') = None"
    using present [rule_format, OF d, of "py ''price''" "PStr []"] by simp
  have a: "dict_get results (py ''availability'') = None"
    using present [rule_format, OF d, of "py ''availability''" "PStr (py ''div['')"]
    by (simp add: page_runtime_simps ascii_select_one_def py_def)
  have s: "dict_get results (py ''sku'') = None"
    using absent [rule_format, of "py ''sku''"] by (simp add: py_def)
  show ?thesis
    by (rule conjI [OF d], rule exI [of _ results], rule exI [of _ evaluated])
      (intro conjI r e' t p a s)
qed

section \<open>C6: the title heuristic\<close>



section \<open>C7: the selector-suggestion client\<close>



section \<open>C8: suggestions never override the caller\<close>

text \<open>
  C8. The handler works on a copy: the effective selector map is a new dict, every dict
  that was in the store before, the caller's \<open>mapping_input\<close> among them, is left as it
  was. An entry of the effective map differs from the caller's only for one of the three
  fields, with suggestions enabled and a credential present, when the suggestion for
  that field is non-empty and the caller's entry is empty or absent; then it is the
  suggestion. A non-empty entry of the caller is never replaced.
\<close>

theorem suggestions_never_override:
  "mapping_input < length h \<longrightarrow>
   (\<exists>h' mapping.
      effective_mapping rt h mapping_input use_llm_inference GEMINI_API_KEY html =
        Inr (h', mapping) \<and>
      mapping = length h \<and> mapping \<noteq> mapping_input \<and>
      length h' = Suc (length h) \<and>
      (\<forall>i < length h. h' ! i = h ! i) \<and>
      (\<forall>k. pd_get (h' ! mapping) k =
         (if use_llm_inference \<and> nonempty GEMINI_API_KEY \<and> k \<in> set expected_keys \<and>
             truthy (pd_get (suggested rt html GEMINI_API_KEY) k) \<and>
             \<not> truthy (pd_get (h ! mapping_input) k)
          then pd_get (suggested rt html GEMINI_API_KEY) k
          else pd_get (h ! mapping_input) k)) \<and>
      (\<forall>k. truthy (pd_get (h ! mapping_input) k) \<longrightarrow>
         pd_get (h' ! mapping) k = pd_get (h ! mapping_input) k))"
proof
  assume a: "mapping_input < length h"
  define h1 where "h1 = h @ [h ! mapping_input]"
  define m where "m = length h"
  obtain out where out: "llm_infer_selectors rt html GEMINI_API_KEY = Inr out"
    using llm_infer_selectors_returns by blast
  have sug: "suggested rt html GEMINI_API_KEY = suggestion out"
    by (simp add: suggested_def out)
  define h' where "h' =
    (if use_llm_inference \<and> nonempty GEMINI_API_KEY \<and> suggestion out \<noteq> []
     then merge_keys h1 m (suggestion out) expected_keys else h1)"
  have r: "effective_mapping rt h mapping_input use_llm_inference GEMINI_API_KEY html =
      Inr (h', m)"
    by (simp add: effective_mapping_def dict_copy_def out h'_def h1_def m_def)
  have m: "m < length h1" "h1 ! m = h ! mapping_input"
    by (simp_all add: h1_def m_def)
  have ne: "m \<noteq> mapping_input" using a by (simp add: m_def)
  have len: "length h' = Suc (length h)"
    by (simp add: h'_def merge_keys_length h1_def)
  have old: "\<forall>i < length h. h' ! i = h ! i"
  proof (intro allI impI)
    fix i assume i: "i < length h"
    then have "i \<noteq> m" by (simp add: m_def)
    then have "h' ! i = h1 ! i" by (simp add: h'_def merge_keys_other)
    with i show "h' ! i = h ! i" by (simp add: h1_def nth_append)
  qed
  have empty: "pd_get [] k = PNone" for k by (simp add: pd_get_def)
  have get: "\<forall>k. pd_get (h' ! m) k =
         (if use_llm_inference \<and> nonempty GEMINI_API_KEY \<and> k \<in> set expected_keys \<and>
             truthy (pd_get (suggestion out) k) \<and> \<not> truthy (pd_get (h ! mapping_input) k)
          then pd_get (suggestion out) k
          else pd_get (h ! mapping_input) k)"
  proof
    fix k
    show "pd_get (h' ! m) k =
         (if use_llm_inference \<and> nonempty GEMINI_API_KEY \<and> k \<in> set expected_keys \<and>
             truthy (pd_get (suggestion out) k) \<and> \<not> truthy (pd_get (h ! mapping_input) k)
          then pd_get (suggestion out) k
          else pd_get (h ! mapping_input) k)"
    proof (cases "use_llm_inference \<and> nonempty GEMINI_API_KEY \<and> suggestion out \<noteq> []")
      case True
      then have "h' = merge_keys h1 m (suggestion out) expected_keys" by (simp add: h'_def)
      then show ?thesis using True by (simp add: merge_keys_get [OF m(1)] m(2))
    next
      case False
      then have h: "h' = h1" unfolding h'_def by (simp only: if_False)
      from False show ?thesis by (auto simp: h m(2) empty)
    qed
  qed
  have keep: "\<forall>k. truthy (pd_get (h ! mapping_input) k) \<longrightarrow>
      pd_get (h' ! m) k = pd_get (h ! mapping_input) k"
    by (simp add: get)
  show "\<exists>h' mapping.
      effective_mapping rt h mapping_input use_llm_inference GEMINI_API_KEY html =
        Inr (h', mapping) \<and>
      mapping = length h \<and> mapping \<noteq> mapping_input \<and>
      length h' = Suc (length h) \<and>
      (\<forall>i < length h. h' ! i = h ! i) \<and>
      (\<forall>k. pd_get (h' ! mapping) k =
         (if use_llm_inference \<and> nonempty GEMINI_API_KEY \<and> k \<in> set expected_keys \<and>
             truthy (pd_get (suggested rt html GEMINI_API_KEY) k) \<and>
             \<not> truthy (pd_get (h ! mapping_input) k)
          then pd_get (suggested rt html GEMINI_API_KEY) k
          else pd_get (h ! mapping_input) k)) \<and>
      (\<forall>k. truthy (pd_get (h ! mapping_input) k) \<longrightarrow>
         pd_get (h' ! mapping) k = pd_get (h ! mapping_input) k)"
    unfolding sug
    by (rule exI [of _ h'], rule exI [of _ m]) (intro conjI r m_def ne len old get keep)
qed

text \<open>
  An instance: the caller gives a title selector and leaves the price blank; the backend
  suggests both. The title selector stays, the price selector is taken from the
  suggestion, and the caller's dict is unchanged.
\<close>

theorem suggestions_never_override_witness:
  "(0::nat) < length [[(py ''title'', PStr (py ''h1'')), (py ''price'', PStr [])]] \<and>
   (\<exists>h' mapping.
      effective_mapping backend_runtime
        [[(py ''title'', PStr (py ''h1'')), (py ''price'', PStr [])]] 0 True
        (Some (py ''key'')) [] = Inr (h', mapping) \<and>
      mapping = 1 \<and>
      h' ! 0 = [(py ''title'', PStr (py ''h1'')), (py ''price'', PStr [])] \<and>
      pd_get (h' ! mapping) (py ''title'') = PStr (py ''h1'') \<and>
      pd_get (h' ! mapping) (py ''price'') = PStr (py ''span'') \<and>
      pd_get (h' ! mapping) (py ''availability'') = PNone)"
proof -
  let ?h = "[[(py ''title'', PStr (py ''h1'')), (py ''price'', PStr [])]]"
  have len: "(0::nat) < length ?h" by simp
  have sug: "suggested backend_runtime [] (Some (py ''key'')) =
      [(py ''title'', PStr (py ''h2'')), (py ''price'', PStr (py ''span''))]"
    by (simp add: suggested_def backend_llm)
  have key: "nonempty (Some (py ''key''))" by (simp add: nonempty_def py_def)
  from suggestions_never_override [of 0 ?h backend_runtime True "Some (py ''key'')" "[]"] len
  obtain h' mapping where
    r: "effective_mapping backend_runtime ?h 0 True (Some (py ''key'')) [] = Inr (h', mapping)" and
    m: "mapping = length ?h" and
    old: "\<forall>i < length ?h. h' ! i = ?h ! i" and
    get: "\<forall>k. pd_get (h' ! mapping) k =
         (if True \<and> nonempty (Some (py ''key'')) \<and> k \<in> set expected_keys \<and>
             truthy (pd_get (suggested backend_runtime [] (Some (py ''key''))) k) \<and>
             \<not> truthy (pd_get (?h ! 0) k)
          then pd_get (suggested backend_runtime [] (Some (py ''key''))) k
          else pd_get (?h ! 0) k)"
    by blast
  have m1: "mapping = 1" using m by simp
  have h0: "h' ! 0 = [(py ''title'', PStr (py ''h1'')), (py ''price'', PStr [])]"
    using old [rule_format, of 0] by simp
  have t: "pd_get (h' ! mapping) (py ''title'') = PStr (py ''h1'')"
    unfolding get [rule_format] sug by (simp add: nonempty_def pd_get_def expected_keys_def py_def)
  have p: "pd_get (h' ! mapping) (py ''price'') = PStr (py ''span'')"
    unfolding get [rule_format] sug by (simp add: nonempty_def pd_get_def expected_keys_def py_def)
  have a: "pd_get (h' ! mapping) (py ''availability'') = PNone"
    unfolding get [rule_format] sug by (simp add: nonempty_def pd_get_def expected_keys_def py_def)
  show ?thesis
    by (rule conjI [OF len], rule exI [of _ h'], rule exI [of _ mapping])
      (intro conjI r m1 h0 t p a)
qed

section \<open>C9: the extraction depends on its inputs and the clock only\<close>



section \<open>C10: the shape of the record\<close>

text \<open>
  C10. For every document text and every selector map, \<open>extract_from_html\<close> returns a
  dict with exactly the keys \<open>title\<close>, \<open>price\<close>, \<open>availability\<close>,
  \<open>extraction_timestamp\<close>, whose \<open>price\<close> is a dict with exactly the keys \<open>raw\<close>,
  \<open>amount\<close>, \<open>currency\<close>; and the result is the same as for the selector map with
  every entry beyond the three fields removed, so nothing extracted for an extra key
  reaches the record.
\<close>

theorem extract_from_html_keys:
  "\<exists>t r a c v ts ran.
     extract_from_html rt utcnow html mapping =
       Inr (PDict
         [(py ''title'', t),
          (py ''price'', PDict [(py ''raw'', r), (py ''amount'', a), (py ''currency'', c)]),
          (py ''availability'', v),
          (py ''extraction_timestamp'', ts)], ran) \<and>
     extract_from_html rt utcnow html (filter (\<lambda>(k, v). k \<in> set expected_keys) mapping) =
       extract_from_html rt utcnow html mapping"
  unfolding extract_from_html_filter
  unfolding extract_from_html_shape
  apply (rule exI)+
  apply (rule conjI)
   apply (rule refl)
  apply (rule refl)
  done

text \<open>An instance: a selector map with an extra key \<open>sku\<close> and without two of the fields.\<close>

theorem extract_from_html_keys_witness:
  "extract_from_html (page_runtime sample_page) (py ''2025-01-01T00:00:00'') []
     [(py ''sku'', PStr (py ''span'')), (py ''title'', PStr (py ''h1''))] =
     Inr (PDict
       [(py ''title'', PStr (py ''Widget'')),
        (py ''price'', PDict
           [(py ''raw'', PStr (RUPEE # py ''1049'')),
            (py ''amount'', PNum 1049),
            (py ''currency'', PStr [RUPEE])]),
        (py ''availability'', PStr (py ''ve. ships free worldwide. now in stock.'')),
        (py ''extraction_timestamp'', PStr (py ''2025-01-01T00:00:00Z''))],
       [py ''price'', py ''availability'']) \<and>
   extract_from_html (page_runtime sample_page) (py ''2025-01-01T00:00:00'') []
     (filter (\<lambda>(k, v). k \<in> set expected_keys)
        [(py ''sku'', PStr (py ''span'')), (py ''title'', PStr (py ''h1''))]) =
   extract_from_html (page_runtime sample_page) (py ''2025-01-01T00:00:00'') []
     [(py ''sku'', PStr (py ''span'')), (py ''title'', PStr (py ''h1''))]"
proof -
  have sel: "select_field (page_runtime sample_page) sample_page (PStr (py ''h1'')) =
      (Some (py ''Widget''), [PStr (py ''h1'')])"
    by (simp add: select_field_def page_runtime_simps ascii_select_one_def page_ops
        document_ops string_ops ascii_runtime_def)
  have "extract_from_html (page_runtime sample_page) (py ''2025-01-01T00:00:00'') []
     [(py ''sku'', PStr (py ''span'')), (py ''title'', PStr (py ''h1''))] =
     Inr (PDict
       [(py ''title'', PStr (py ''Widget'')),
        (py ''price'', PDict
           [(py ''raw'', PStr (RUPEE # py ''1049'')),
            (py ''amount'', PNum 1049),
            (py ''currency'', PStr [RUPEE])]),
        (py ''availability'', PStr (py ''ve. ships free worldwide. now in stock.'')),
        (py ''extraction_timestamp'', PStr (py ''2025-01-01T00:00:00Z''))],
       [py ''price'', py ''availability''])"
    unfolding extract_from_html_shape
    by (simp add: page_runtime_simps(1) filled_def heuristics_run_def selected_eq nonempty_def
        sel sample_price sample_availability sample_amount sample_currency
        expected_keys_def field_names_distinct)
      (simp add: py_def)
  moreover from extract_from_html_keys
    [of "page_runtime sample_page" "py ''2025-01-01T00:00:00''" "[]"
        "[(py ''sku'', PStr (py ''span'')), (py ''title'', PStr (py ''h1''))]"]
  have "extract_from_html (page_runtime sample_page) (py ''2025-01-01T00:00:00'') []
     (filter (\<lambda>(k, v). k \<in> set expected_keys)
        [(py ''sku'', PStr (py ''span'')), (py ''title'', PStr (py ''h1''))]) =
   extract_from_html (page_runtime sample_page) (py ''2025-01-01T00:00:00'') []
     [(py ''sku'', PStr (py ''span'')), (py ''title'', PStr (py ''h1''))]"
    by (elim exE conjE)
  ultimately show ?thesis by (rule conjI)
qed

end
